theory Spec2Isabelle
  imports Main "HOL-Library.Sublist"
begin

section \<open>JavaScript strings\<close>

text \<open>
  A JavaScript string is a sequence of UTF-16 code units. The model uses \<^typ>\<open>string\<close>,
  reading each \<^typ>\<open>char\<close> as the code unit of that number: the strings covered are
  those of ASCII and Latin-1 (code units below 256). The built-in string methods the
  program calls are written out below for that range.
\<close>

definition isWhiteSpace :: "char \<Rightarrow> bool" where
  \<comment> \<open>The characters \<open>String.prototype.trim\<close> strips (white space and line terminators)
      that lie below 256: TAB, LF, VT, FF, CR, SP and NBSP.\<close>
  "isWhiteSpace c \<longleftrightarrow> c \<in> {CHR 0x09, CHR 0x0A, CHR 0x0B, CHR 0x0C, CHR 0x0D, CHR 0x20, CHR 0xA0}"

definition trim :: "string \<Rightarrow> string" where
  "trim s = rev (dropWhile isWhiteSpace (rev (dropWhile isWhiteSpace s)))"

fun split_str :: "char \<Rightarrow> string \<Rightarrow> string list" where
  \<comment> \<open>\<open>s.split(sep)\<close> for a one-character separator: always at least one part.\<close>
  "split_str sep [] = [[]]"
| "split_str sep (c # cs) =
     (if c = sep then [] # split_str sep cs
      else (case split_str sep cs of [] \<Rightarrow> [[c]] | p # ps \<Rightarrow> (c # p) # ps))"

definition toLowerChar :: "char \<Rightarrow> char" where
  \<comment> \<open>Lower-case mapping of one code unit below 256: A-Z, and the Latin-1 capitals
      U+00C0 to U+00DE except the multiplication sign U+00D7, move up by 32.\<close>
  "toLowerChar c =
     (let n = (of_char c :: nat) in
      if (65 \<le> n \<and> n \<le> 90) \<or> (192 \<le> n \<and> n \<le> 222 \<and> n \<noteq> 215)
      then char_of (n + 32) else c)"

definition toLowerCase :: "string \<Rightarrow> string" where
  "toLowerCase s = map toLowerChar s"

fun includes_str :: "string \<Rightarrow> string \<Rightarrow> bool" where
  \<comment> \<open>\<open>s.includes(sub)\<close>: \<open>sub\<close> occurs in \<open>s\<close> as a contiguous run.\<close>
  "includes_str [] sub = (sub = [])"
| "includes_str (c # cs) sub = (prefix sub (c # cs) \<or> includes_str cs sub)"

definition startsWith :: "string \<Rightarrow> string \<Rightarrow> bool" where
  "startsWith s p = prefix p s"

section \<open>The deployment service: credentials and project names\<close>

record TokenPair =
  githubToken :: string
  vercelToken :: string

definition formatError :: string where
  \<open>formatError = ''Token format should be "github_token:vercel_token"''\<close>

definition bothRequiredError :: string where
  "bothRequiredError = ''Both GitHub and Vercel tokens are required''"

definition parseTokens :: "string \<Rightarrow> string + TokenPair" where
  \<comment> \<open>\<open>Inl\<close> carries the message of the thrown \<open>Error\<close>.\<close>
  "parseTokens combinedToken =
     (let parts = split_str CHR '':'' combinedToken in
      if length parts \<noteq> 2 then Inl formatError
      else
        let githubToken = parts ! 0; vercelToken = parts ! 1 in
        if trim githubToken = [] \<or> trim vercelToken = [] then Inl bothRequiredError
        else Inr \<lparr>githubToken = trim githubToken, vercelToken = trim vercelToken\<rparr>)"

definition isNameChar :: "char \<Rightarrow> bool" where
  \<comment> \<open>The character class \<open>[a-z0-9-]\<close>.\<close>
  "isNameChar c \<longleftrightarrow>
     (let n = (of_char c :: nat) in (97 \<le> n \<and> n \<le> 122) \<or> (48 \<le> n \<and> n \<le> 57) \<or> c = CHR ''-'')"

definition replaceInvalid :: "string \<Rightarrow> string" where
  \<comment> \<open>\<open>.replace(/[^a-z0-9-]/g, '-')\<close>\<close>
  "replaceInvalid s = map (\<lambda>c. if isNameChar c then c else CHR ''-'') s"

definition isHyphen :: "char \<Rightarrow> bool" where
  "isHyphen c \<longleftrightarrow> c = CHR ''-''"

function collapseHyphens :: "string \<Rightarrow> string" where
  \<comment> \<open>\<open>.replace(/-+/g, '-')\<close>: at a hyphen the pattern takes the whole run of hyphens,
      and one hyphen is written for it.\<close>
  "collapseHyphens [] = []"
| "collapseHyphens (c # cs) =
     (if isHyphen c then CHR ''-'' # collapseHyphens (dropWhile isHyphen cs)
      else c # collapseHyphens cs)"
  by pat_completeness auto
termination
  by (relation "measure length") (auto simp: less_Suc_eq_le length_dropWhile_le)

definition stripEdgeHyphen :: "string \<Rightarrow> string" where
  \<comment> \<open>\<open>.replace(/^-|-$/g, '')\<close>: the global search removes a hyphen at index 0, then a
      hyphen that is the last character of what follows; one character at each end at most.\<close>
  "stripEdgeHyphen s =
     (let s1 = (case s of [] \<Rightarrow> [] | c # cs \<Rightarrow> if c = CHR ''-'' then cs else s) in
      if s1 \<noteq> [] \<and> last s1 = CHR ''-'' then butlast s1 else s1)"

record RepoRef =
  owner :: string
  repo :: string

definition generateProjectName :: "'a RepoRef_scheme \<Rightarrow> string option \<Rightarrow> string" where
  \<comment> \<open>\<open>customName\<close> is \<open>string | undefined\<close>; \<open>if (customName)\<close> is false for
      \<open>undefined\<close> and for the empty string.\<close>
  "generateProjectName repoInfo customName =
     (case customName of
        Some n \<Rightarrow>
          if n \<noteq> [] then stripEdgeHyphen (collapseHyphens (replaceInvalid (toLowerCase n)))
          else toLowerCase (owner repoInfo @ ''-'' @ repo repoInfo)
      | None \<Rightarrow> toLowerCase (owner repoInfo @ ''-'' @ repo repoInfo))"

section \<open>JavaScript values\<close>

text \<open>
  The request body, and the value of a property lookup, is an untyped JavaScript value.
  An object lists its own members as an association list, read with \<^const>\<open>map_of\<close>.
  \<open>Builtin k\<close> is the function or object that every ordinary object inherits from
  \<open>Object.prototype\<close> under the name \<open>k\<close>; a number is an integer.
\<close>

datatype js =
    Undefined
  | Null
  | Bool bool
  | Num int
  | Str string
  | Arr "js list"
  | Obj "(string \<times> js) list"
  | Builtin string

definition objectPrototypeKeys :: "string list" where
  "objectPrototypeKeys =
     [''constructor'', ''__defineGetter__'', ''__defineSetter__'', ''hasOwnProperty'',
      ''__lookupGetter__'', ''__lookupSetter__'', ''isPrototypeOf'', ''propertyIsEnumerable'',
      ''toString'', ''valueOf'', ''__proto__'', ''toLocaleString'']"

fun truthy :: "js \<Rightarrow> bool" where
  "truthy Undefined = False"
| "truthy Null = False"
| "truthy (Bool b) = b"
| "truthy (Num n) = (n \<noteq> 0)"
| "truthy (Str s) = (s \<noteq> [])"
| "truthy (Arr xs) = True"
| "truthy (Obj kvs) = True"
| "truthy (Builtin k) = True"

fun getProp :: "js \<Rightarrow> string \<Rightarrow> string + js" where
  \<comment> \<open>\<open>v.k\<close> and \<open>v[k]\<close>. Reading a property of \<open>undefined\<close> or \<open>null\<close> throws a
      \<open>TypeError\<close> (\<open>Inl\<close> its message). An object answers with its own member, then with
      the inherited one. The own members of arrays, strings, numbers and booleans are not
      modelled: the program reads only \<open>repoUrl\<close>, \<open>projectName\<close>, \<open>framework\<close> and
      \<open>deploymentId\<close> of such a value, and none of them has a member of these names.\<close>
  "getProp Undefined k = Inl (''Cannot read properties of undefined (reading '' @ [CHR 0x27] @ k @ [CHR 0x27] @ '')'')"
| "getProp Null k = Inl (''Cannot read properties of null (reading '' @ [CHR 0x27] @ k @ [CHR 0x27] @ '')'')"
| "getProp (Obj kvs) k =
     (case map_of kvs k of
        Some v \<Rightarrow> Inr v
      | None \<Rightarrow> if k \<in> set objectPrototypeKeys then Inr (Builtin k) else Inr Undefined)"
| "getProp v k = Inr Undefined"

fun isString :: "js \<Rightarrow> bool" where
  \<comment> \<open>\<open>typeof v === 'string'\<close>\<close>
  "isString (Str s) = True"
| "isString v = False"

section \<open>The deployment platform's records and the status summary\<close>

record VercelProject =
  p_id :: string
  p_name :: string
  p_accountId :: string
  p_createdAt :: int
  p_updatedAt :: int

record VercelDeployment =
  d_id :: string
  d_url :: string
  d_name :: string
  d_state :: string  \<comment> \<open>declared as one of six literals; the platform's string, unchecked\<close>
  d_createdAt :: int
  d_projectId :: string
  d_inspectorUrl :: "string option"

record DeploymentResult =
  r_deployment :: VercelDeployment
  r_project :: VercelProject
  r_message :: string

definition statusMessages :: js where
  "statusMessages = Obj
     [(''BUILDING'', Str ''Deployment is currently building''),
      (''ERROR'', Str ''Deployment failed with errors''),
      (''INITIALIZING'', Str ''Deployment is initializing''),
      (''QUEUED'', Str ''Deployment is queued and waiting to start''),
      (''READY'', Str ''Deployment is live and ready''),
      (''CANCELED'', Str ''Deployment was canceled'')]"

record StatusSummary =
  s_deployment :: VercelDeployment
  s_status :: string
  s_message :: js
  s_isLive :: bool
  s_hasError :: bool

definition statusSummary :: "VercelDeployment \<Rightarrow> StatusSummary" where
  \<comment> \<open>The object \<open>getDeploymentStatus\<close> returns once the platform has answered.\<close>
  "statusSummary deployment =
     \<lparr>s_deployment = deployment,
      s_status = d_state deployment,
      s_message =
        (case getProp statusMessages (d_state deployment) of
           Inr v \<Rightarrow> if truthy v then v else Str ''Unknown deployment status''
         | Inl e \<Rightarrow> Str ''Unknown deployment status''),
      s_isLive = (d_state deployment = ''READY''),
      s_hasError = (d_state deployment = ''ERROR'')\<rparr>"

section \<open>The source-control service\<close>

definition stripPrefix :: "string \<Rightarrow> string \<Rightarrow> string option" where
  "stripPrefix p s = (if prefix p s then Some (drop (length p) s) else None)"

definition notSlash :: "char \<Rightarrow> bool" where
  \<comment> \<open>The character class \<open>[^\/]\<close>.\<close>
  "notSlash c \<longleftrightarrow> c \<noteq> CHR ''/''"

definition isLineTerminator :: "char \<Rightarrow> bool" where
  \<comment> \<open>The characters \<open>.\<close> does not match, below 256: LF and CR.\<close>
  "isLineTerminator c \<longleftrightarrow> c = CHR 0x0A \<or> c = CHR 0x0D"

definition lazyRepo :: "string \<Rightarrow> string" where
  \<comment> \<open>\<open>([^\/]+?)(?:\.git)?\<close> on a whole segment: the lazy group takes the shortest
      non-empty prefix that leaves nothing or \<open>.git\<close>.\<close>
  "lazyRepo seg =
     (if 4 < length seg \<and> drop (length seg - 4) seg = ''.git''
      then take (length seg - 4) seg else seg)"

definition matchHttps :: "string \<Rightarrow> RepoRef option" where
  \<comment> \<open>\<open>/^https:\/\/github\.com\/([^\/]+)\/([^\/]+?)(?:\.git)?(?:\/.*)?$/\<close>\<close>
  "matchHttps url =
     (case stripPrefix ''https://github.com/'' url of
        None \<Rightarrow> None
      | Some rest \<Rightarrow>
          (case dropWhile notSlash rest of
             [] \<Rightarrow> None
           | slash # rest2 \<Rightarrow>
               let own = takeWhile notSlash rest;
                   seg = takeWhile notSlash rest2;
                   trailing = dropWhile notSlash rest2
               in if own = [] \<or> seg = [] \<or> list_ex isLineTerminator trailing then None
                  else Some \<lparr>owner = own, repo = lazyRepo seg\<rparr>))"

definition matchSsh :: "string \<Rightarrow> RepoRef option" where
  \<comment> \<open>\<open>/^git@github\.com:([^\/]+)\/([^\/]+?)(?:\.git)?$/\<close>\<close>
  "matchSsh url =
     (case stripPrefix ''git@github.com:'' url of
        None \<Rightarrow> None
      | Some rest \<Rightarrow>
          (case dropWhile notSlash rest of
             [] \<Rightarrow> None
           | slash # rest2 \<Rightarrow>
               let own = takeWhile notSlash rest
               in if own = [] \<or> rest2 = [] \<or> \<not> list_all notSlash rest2 then None
                  else Some \<lparr>owner = own, repo = lazyRepo rest2\<rparr>))"

definition matchSimple :: "string \<Rightarrow> RepoRef option" where
  \<comment> \<open>\<open>/^([^\/]+)\/([^\/]+)$/\<close>\<close>
  "matchSimple url =
     (case dropWhile notSlash url of
        [] \<Rightarrow> None
      | slash # rest2 \<Rightarrow>
          let own = takeWhile notSlash url
          in if own = [] \<or> rest2 = [] \<or> \<not> list_all notSlash rest2 then None
             else Some \<lparr>owner = own, repo = rest2\<rparr>)"

definition parseGitHubUrl :: "string \<Rightarrow> string + RepoRef" where
  "parseGitHubUrl repoUrl =
     (case matchHttps repoUrl of
        Some r \<Rightarrow> Inr r
      | None \<Rightarrow>
          (case matchSsh repoUrl of
             Some r \<Rightarrow> Inr r
           | None \<Rightarrow>
               (case matchSimple repoUrl of
                  Some r \<Rightarrow> Inr r
                | None \<Rightarrow> Inl (''Invalid GitHub repository URL: '' @ repoUrl))))"

record JsError =
  e_status :: "nat option"  \<comment> \<open>\<open>error.status\<close>, where the thrown value has one\<close>
  e_message :: string

record RepoData =
  data_owner_login :: string
  data_name :: string
  data_default_branch :: string
  data_private :: bool
  data_full_name :: string
  data_id :: int

record GitHubRepoInfo = RepoRef +
  defaultBranch :: string
  isPrivate :: bool
  fullName :: string
  repoId :: int

section \<open>The upstream services and the requests sent to them\<close>

datatype 'a FetchOutcome =
    Threw string  \<comment> \<open>\<open>fetch\<close> rejected, or reading the body threw: the \<open>Error\<close>'s message\<close>
  | NotOk nat string "string option"
      \<comment> \<open>\<open>response.ok\<close> false: \<open>status\<close>, \<open>statusText\<close>, \<open>errorData.error?.message\<close>\<close>
  | Ok 'a  \<comment> \<open>\<open>response.ok\<close> true, the body read as the declared type\<close>

record ProjectData =
  pd_name :: string
  pd_gitRepository_repo :: string
  pd_framework :: "string option"  \<comment> \<open>\<open>None\<close> is \<open>null\<close>\<close>

record DeploymentData =
  dd_name :: string
  dd_project :: string
  dd_gitSource_repo :: string
  dd_gitSource_ref :: string
  dd_gitSource_repoId :: int

record DeployRepoParams =
  dp_repoUrl :: string
  dp_projectName :: "string option"
  dp_framework :: "string option"

datatype event =
    DeployRepository TokenPair DeployRepoParams  \<comment> \<open>\<open>deployRepository\<close> entered\<close>
  | GetDeploymentStatus string js  \<comment> \<open>\<open>getDeploymentStatus\<close> entered\<close>
  | ReposGet string string string  \<comment> \<open>\<open>octokit.rest.repos.get\<close>: token, owner, repo\<close>
  | GetProject string string  \<comment> \<open>GET /v9/projects/name\<close>
  | PostProject string ProjectData  \<comment> \<open>POST /v9/projects\<close>
  | PostDeployment string DeploymentData  \<comment> \<open>POST /v13/deployments\<close>
  | GetDeployment string js  \<comment> \<open>GET /v13/deployments/id\<close>

record Upstream =
  reposGet :: "string \<Rightarrow> string \<Rightarrow> string \<Rightarrow> JsError + RepoData"
  fetchGetProject :: "string \<Rightarrow> string \<Rightarrow> VercelProject FetchOutcome"
  fetchPostProject :: "string \<Rightarrow> ProjectData \<Rightarrow> VercelProject FetchOutcome"
  fetchPostDeployment :: "string \<Rightarrow> DeploymentData \<Rightarrow> VercelDeployment FetchOutcome"
  fetchGetDeployment :: "string \<Rightarrow> js \<Rightarrow> VercelDeployment FetchOutcome"

text \<open>
  An asynchronous method returns the requests it sent, in order, and either the message
  of the \<open>Error\<close> it threw (\<open>Inl\<close>) or its value (\<open>Inr\<close>).
\<close>

type_synonym 'a traced = "event list \<times> (string + 'a)"

definition validateRepositoryCatch :: "JsError \<Rightarrow> string \<Rightarrow> string" where
  \<comment> \<open>The \<open>catch\<close> block of \<open>validateRepository\<close>: the message it throws.\<close>
  "validateRepositoryCatch error repoUrl =
     (if e_status error = Some 404 then ''Repository not found or not accessible: '' @ repoUrl
      else if e_status error = Some 401 then ''GitHub token is invalid or expired''
      else if e_status error = Some 403
        then ''GitHub token does not have permission to access this repository''
      else ''GitHub API error: '' @ e_message error)"

definition validateRepository :: "Upstream \<Rightarrow> string \<Rightarrow> string \<Rightarrow> GitHubRepoInfo traced" where
  "validateRepository w token repoUrl =
     (case parseGitHubUrl repoUrl of
        Inl m \<Rightarrow> ([], Inl (validateRepositoryCatch \<lparr>e_status = None, e_message = m\<rparr> repoUrl))
      | Inr r \<Rightarrow>
          ([ReposGet token (owner r) (repo r)],
           (case reposGet w token (owner r) (repo r) of
              Inl error \<Rightarrow> Inl (validateRepositoryCatch error repoUrl)
            | Inr data \<Rightarrow>
                Inr \<lparr>owner = data_owner_login data, repo = data_name data,
                     defaultBranch = data_default_branch data, isPrivate = data_private data,
                     fullName = data_full_name data, repoId = data_id data\<rparr>)))"

section \<open>The deployment platform service\<close>

fun showNat :: "nat \<Rightarrow> string" where
  \<comment> \<open>A number in a template string: its decimal digits.\<close>
  "showNat n =
     (if n < 10 then [char_of (48 + n)] else showNat (n div 10) @ [char_of (48 + n mod 10)])"

declare showNat.simps [simp del]

definition apiMessage :: "string option \<Rightarrow> string \<Rightarrow> string" where
  \<comment> \<open>\<open>errorData.error?.message || response.statusText\<close>\<close>
  "apiMessage m statusText = (case m of Some t \<Rightarrow> if t \<noteq> [] then t else statusText | None \<Rightarrow> statusText)"

definition getProject :: "Upstream \<Rightarrow> string \<Rightarrow> string \<Rightarrow> VercelProject option traced" where
  \<comment> \<open>\<open>None\<close> is \<open>null\<close>. The \<open>catch\<close> block answers \<open>null\<close> for every error whose message
      holds \<open>404\<close>, also for the \<open>HTTP status: text\<close> error thrown two lines above it.\<close>
  "getProject w token projectName =
     ([GetProject token projectName],
      (case (case fetchGetProject w token projectName of
               Threw m \<Rightarrow> Inl m
             | NotOk status statusText em \<Rightarrow>
                 if status = 404 then Inr None
                 else Inl (''HTTP '' @ showNat status @ '': '' @ statusText)
             | Ok p \<Rightarrow> Inr (Some p)) of
         Inl m \<Rightarrow> if includes_str m ''404'' then Inr None else Inl m
       | Inr v \<Rightarrow> Inr v))"

definition createProject ::
  "Upstream \<Rightarrow> string \<Rightarrow> string \<Rightarrow> GitHubRepoInfo \<Rightarrow> string \<Rightarrow> VercelProject traced" where
  "createProject w token projectName repoInfo framework =
     (case getProject w token projectName of
        (t1, Inr (Some p)) \<Rightarrow> (t1, Inr p)
      | (t1, _) \<Rightarrow>
          let projectData =
                \<lparr>pd_name = projectName, pd_gitRepository_repo = fullName repoInfo,
                 pd_framework = (if framework = ''static'' then None else Some framework)\<rparr>
          in (t1 @ [PostProject token projectData],
              (case fetchPostProject w token projectData of
                 Threw m \<Rightarrow> Inl (''Failed to create Vercel project: '' @ m)
               | NotOk status statusText em \<Rightarrow>
                   Inl (''Failed to create Vercel project: '' @ ''Vercel API error: ''
                        @ apiMessage em statusText)
               | Ok p \<Rightarrow> Inr p)))"

definition createDeployment ::
  "Upstream \<Rightarrow> string \<Rightarrow> VercelProject \<Rightarrow> GitHubRepoInfo \<Rightarrow> VercelDeployment traced" where
  "createDeployment w token project repoInfo =
     (let deploymentData =
            \<lparr>dd_name = p_name project, dd_project = p_id project,
             dd_gitSource_repo = fullName repoInfo, dd_gitSource_ref = defaultBranch repoInfo,
             dd_gitSource_repoId = repoId repoInfo\<rparr>
      in ([PostDeployment token deploymentData],
          (case fetchPostDeployment w token deploymentData of
             Threw m \<Rightarrow> Inl (''Failed to create deployment: '' @ m)
           | NotOk status statusText em \<Rightarrow>
               Inl (''Failed to create deployment: '' @ ''Vercel deployment error: ''
                    @ apiMessage em statusText)
           | Ok d \<Rightarrow> Inr d)))"

definition vercelGetDeploymentStatus :: "Upstream \<Rightarrow> string \<Rightarrow> js \<Rightarrow> VercelDeployment traced" where
  \<comment> \<open>\<open>VercelService.getDeploymentStatus\<close>\<close>
  "vercelGetDeploymentStatus w token deploymentId =
     ([GetDeployment token deploymentId],
      (case fetchGetDeployment w token deploymentId of
         Threw m \<Rightarrow> Inl (''Failed to get deployment status: '' @ m)
       | NotOk status statusText em \<Rightarrow>
           Inl (''Failed to get deployment status: '' @ ''Vercel API error: ''
                @ apiMessage em statusText)
       | Ok d \<Rightarrow> Inr d))"

section \<open>The deployment service: the deploy flow and the status flow\<close>

definition orStatic :: "string option \<Rightarrow> string" where
  \<comment> \<open>\<open>framework || 'static'\<close> for a \<open>string | undefined\<close>\<close>
  "orStatic f = (case f of Some t \<Rightarrow> if t \<noteq> [] then t else ''static'' | None \<Rightarrow> ''static'')"

definition deployRepository :: "Upstream \<Rightarrow> TokenPair \<Rightarrow> DeployRepoParams \<Rightarrow> DeploymentResult traced" where
  \<comment> \<open>Every throw inside the \<open>try\<close> block reaches the one \<open>catch\<close>, which throws the
      message again behind \<open>Deployment failed: \<close>.\<close>
  "deployRepository w tokens params =
     (case validateRepository w (githubToken tokens) (dp_repoUrl params) of
        (t1, Inl m) \<Rightarrow> (DeployRepository tokens params # t1, Inl (''Deployment failed: '' @ m))
      | (t1, Inr repoInfo) \<Rightarrow>
          (case createProject w (vercelToken tokens)
                  (generateProjectName repoInfo (dp_projectName params)) repoInfo
                  (orStatic (dp_framework params)) of
             (t2, Inl m) \<Rightarrow>
               (DeployRepository tokens params # t1 @ t2, Inl (''Deployment failed: '' @ m))
           | (t2, Inr project) \<Rightarrow>
               (case createDeployment w (vercelToken tokens) project repoInfo of
                  (t3, Inl m) \<Rightarrow>
                    (DeployRepository tokens params # t1 @ t2 @ t3,
                     Inl (''Deployment failed: '' @ m))
                | (t3, Inr deployment) \<Rightarrow>
                    (DeployRepository tokens params # t1 @ t2 @ t3,
                     Inr \<lparr>r_deployment = deployment, r_project = project,
                          r_message = ''Successfully initiated deployment of ''
                            @ fullName repoInfo @ '' to Vercel''\<rparr>))))"

definition getDeploymentStatus :: "Upstream \<Rightarrow> string \<Rightarrow> js \<Rightarrow> StatusSummary traced" where
  "getDeploymentStatus w token deploymentId =
     (case vercelGetDeploymentStatus w token deploymentId of
        (t1, Inl m) \<Rightarrow>
          (GetDeploymentStatus token deploymentId # t1,
           Inl (''Failed to get deployment status: '' @ m))
      | (t1, Inr deployment) \<Rightarrow>
          (GetDeploymentStatus token deploymentId # t1, Inr (statusSummary deployment)))"

section \<open>Dates\<close>

text \<open>
  \<open>new Date(ms).toISOString()\<close> for a whole number of milliseconds since the epoch: the
  time value is valid up to 8.64e15 in absolute value, the date is the proleptic Gregorian
  one in UTC, and a year outside 0 to 9999 is written with a sign and six digits.
\<close>

definition pad :: "nat \<Rightarrow> int \<Rightarrow> string" where
  \<comment> \<open>The decimal digits of a non-negative number, filled with zeros on the left.\<close>
  "pad k n = replicate (k - length (showNat (nat n))) CHR ''0'' @ showNat (nat n)"

definition civilFromDays :: "int \<Rightarrow> int \<times> int \<times> int" where
  \<comment> \<open>Year, month (1 to 12) and day of the month of a day number counted from
      1970-01-01; the year of the computation starts on the first of March.\<close>
  "civilFromDays days =
     (let z = days + 719468;
          era = z div 146097;
          doe = z mod 146097;
          yoe = (doe - doe div 1460 + doe div 36524 - doe div 146096) div 365;
          doy = doe - (365 * yoe + yoe div 4 - yoe div 100);
          mp = (5 * doy + 2) div 153;
          d = doy - (153 * mp + 2) div 5 + 1;
          m = (if mp < 10 then mp + 3 else mp - 9);
          y = yoe + era * 400
      in (if m \<le> 2 then y + 1 else y, m, d))"

definition showYear :: "int \<Rightarrow> string" where
  "showYear y =
     (if 0 \<le> y \<and> y \<le> 9999 then pad 4 y
      else (if y < 0 then ''-'' else ''+'') @ pad 6 (abs y))"

definition toISOString :: "int \<Rightarrow> string + string" where
  \<comment> \<open>\<open>Inl\<close> is the message of the \<open>RangeError\<close> an invalid date throws.\<close>
  "toISOString t =
     (if 8640000000000000 < abs t then Inl ''Invalid time value''
      else
        let ms = t mod 86400000 in
        case civilFromDays (t div 86400000) of
          (y, m, d) \<Rightarrow>
            Inr (showYear y @ ''-'' @ pad 2 m @ ''-'' @ pad 2 d @ ''T''
                 @ pad 2 (ms div 3600000) @ '':'' @ pad 2 (ms div 60000 mod 60) @ '':''
                 @ pad 2 (ms div 1000 mod 60) @ ''.'' @ pad 3 (ms mod 1000) @ ''Z''))"

section \<open>The request adapter\<close>

record Request =
  req_toolName :: string  \<comment> \<open>\<open>req.params.toolName\<close>\<close>
  req_authorization :: "string option"  \<comment> \<open>\<open>req.headers.authorization\<close>\<close>
  req_x_github :: "string option"  \<comment> \<open>\<open>req.headers['x-github']\<close>\<close>
  req_x_vercel :: "string option"  \<comment> \<open>\<open>req.headers['x-vercel']\<close>\<close>
  req_body :: js  \<comment> \<open>\<open>req.body\<close>\<close>

record DeployRepoData =
  out_deploymentId :: string
  out_deploymentUrl :: string
  out_projectName :: string
  out_status :: string
  out_message :: string
  out_repository :: js
  out_framework :: js
  out_inspectorUrl :: "string option"  \<comment> \<open>\<open>None\<close> is \<open>undefined\<close>: the key is left out of the JSON\<close>
  out_tool_type :: string

record DeploymentStatusData =
  st_deploymentId :: string
  st_status :: string
  st_deploymentUrl :: string
  st_message :: js
  st_isLive :: bool
  st_hasError :: bool
  st_createdAt :: string
  st_inspectorUrl :: "string option"
  st_tool_type :: string

datatype ResponseData = Deployment DeployRepoData | DeploymentStatus DeploymentStatusData

text \<open>
  Modelled from the spec: the envelope classes \<open>BaseSuccessResponseDto\<close> and
  \<open>BaseErrorResponseDto\<close> of \<open>types/agent\<close> are not among the sources. The error
  envelope carries a message, an HTTP-style status code and a short context string; the
  success envelope carries the data. Each is the record of its constructor's arguments.
\<close>

datatype Envelope =
    BaseSuccessResponseDto ResponseData string
  | BaseErrorResponseDto string nat string

record HttpResponse =
  statusCode :: nat  \<comment> \<open>\<open>res.status(n)\<close>; 200 where the handler sets none\<close>
  sent :: Envelope  \<comment> \<open>\<open>res.json(envelope)\<close>\<close>

definition respondError :: "string \<Rightarrow> nat \<Rightarrow> string \<Rightarrow> HttpResponse" where
  \<comment> \<open>\<open>res.status(code).json(new BaseErrorResponseDto(message, code, details))\<close>\<close>
  "respondError message code details =
     \<lparr>statusCode = code, sent = BaseErrorResponseDto message code details\<rparr>"

definition validateDeployRepoParameters :: "js \<Rightarrow> string + unit" where
  "validateDeployRepoParameters params =
     (case getProp params ''repoUrl'' of
        Inl m \<Rightarrow> Inl m
      | Inr url \<Rightarrow>
          if \<not> truthy url then Inl ''Missing required parameter: repoUrl''
          else if \<not> isString url then Inl (''Parameter '' @ [CHR 0x27] @ ''repoUrl'' @ [CHR 0x27] @ '' must be a string'')
          else if \<not> (case url of Str u \<Rightarrow> includes_str u ''github.com'' | _ \<Rightarrow> False)
            then Inl (''Parameter '' @ [CHR 0x27] @ ''repoUrl'' @ [CHR 0x27] @ '' must be a valid GitHub repository URL'')
          else
            (case getProp params ''projectName'' of
               Inl m \<Rightarrow> Inl m
             | Inr pn \<Rightarrow>
                 if truthy pn \<and> \<not> isString pn
                 then Inl (''Parameter '' @ [CHR 0x27] @ ''projectName'' @ [CHR 0x27] @ '' must be a string'')
                 else
                   (case getProp params ''framework'' of
                      Inl m \<Rightarrow> Inl m
                    | Inr fw \<Rightarrow>
                        if truthy fw \<and> \<not> isString fw
                        then Inl (''Parameter '' @ [CHR 0x27] @ ''framework'' @ [CHR 0x27] @ '' must be a string'')
                        else Inr ())))"

definition readProp :: "js \<Rightarrow> string \<Rightarrow> js" where
  \<comment> \<open>A property read that cannot throw: the object has been read before.\<close>
  "readProp v k = (case getProp v k of Inr x \<Rightarrow> x | Inl m \<Rightarrow> Undefined)"

definition orElse :: "js \<Rightarrow> js \<Rightarrow> js" where
  \<comment> \<open>\<open>a || b\<close>\<close>
  "orElse a b = (if truthy a then a else b)"

definition asString :: "js \<Rightarrow> string" where
  \<comment> \<open>A validated value passed where the callee declares a string.\<close>
  "asString v = (case v of Str t \<Rightarrow> t | _ \<Rightarrow> [])"

definition asOptionalString :: "js \<Rightarrow> string option" where
  \<comment> \<open>A validated value passed where the callee declares \<open>string | undefined\<close>: after
      validation it is a string or falsy, and the callee only tests a falsy one for truth.\<close>
  "asOptionalString v = (case v of Str t \<Rightarrow> Some t | _ \<Rightarrow> None)"

definition handleDeployRepo :: "Upstream \<Rightarrow> TokenPair \<Rightarrow> js \<Rightarrow> HttpResponse traced" where
  \<comment> \<open>\<open>Inl\<close>: the handler threw before sending anything.\<close>
  "handleDeployRepo w tokens params =
     (case validateDeployRepoParameters params of
        Inl m \<Rightarrow> ([], Inl m)
      | Inr u \<Rightarrow>
          (case deployRepository w tokens
                  \<lparr>dp_repoUrl = asString (readProp params ''repoUrl''),
                   dp_projectName = asOptionalString (readProp params ''projectName''),
                   dp_framework = asOptionalString (orElse (readProp params ''framework'') (Str ''static''))\<rparr> of
             (t, Inl m) \<Rightarrow> (t, Inr (respondError m 400 ''Deployment failed''))
           | (t, Inr result) \<Rightarrow>
               (t, Inr \<lparr>statusCode = 200,
                        sent = BaseSuccessResponseDto
                          (Deployment
                            \<lparr>out_deploymentId = d_id (r_deployment result),
                             out_deploymentUrl = ''https://'' @ d_url (r_deployment result),
                             out_projectName = p_name (r_project result),
                             out_status = d_state (r_deployment result),
                             out_message = r_message result,
                             out_repository = readProp params ''repoUrl'',
                             out_framework = orElse (readProp params ''framework'') (Str ''static''),
                             out_inspectorUrl = d_inspectorUrl (r_deployment result),
                             out_tool_type = ''deployment''\<rparr>)
                          ''mixed''\<rparr>)))"

definition handleGetDeploymentStatus :: "Upstream \<Rightarrow> string \<Rightarrow> js \<Rightarrow> HttpResponse traced" where
  "handleGetDeploymentStatus w token params =
     (case getProp params ''deploymentId'' of
        Inl m \<Rightarrow> ([], Inl m)
      | Inr deploymentId \<Rightarrow>
          if \<not> truthy deploymentId then ([], Inl ''Missing required parameter: deploymentId'')
          else
            (case getDeploymentStatus w token deploymentId of
               (t, Inl m) \<Rightarrow> (t, Inr (respondError m 400 ''Failed to get deployment status''))
             | (t, Inr result) \<Rightarrow>
                 (case toISOString (d_createdAt (s_deployment result)) of
                    Inl m \<Rightarrow> (t, Inr (respondError m 400 ''Failed to get deployment status''))
                  | Inr created \<Rightarrow>
                      (t, Inr \<lparr>statusCode = 200,
                               sent = BaseSuccessResponseDto
                                 (DeploymentStatus
                                   \<lparr>st_deploymentId = d_id (s_deployment result),
                                    st_status = d_state (s_deployment result),
                                    st_deploymentUrl = ''https://'' @ d_url (s_deployment result),
                                    st_message = s_message result,
                                    st_isLive = s_isLive result,
                                    st_hasError = s_hasError result,
                                    st_createdAt = created,
                                    st_inspectorUrl = d_inspectorUrl (s_deployment result),
                                    st_tool_type = ''deployment_status''\<rparr>)
                                 ''mixed''\<rparr>))))"

definition dispatch :: "Upstream \<Rightarrow> string \<Rightarrow> TokenPair \<Rightarrow> js \<Rightarrow> event list \<times> HttpResponse" where
  \<comment> \<open>The part of \<open>handleTool\<close> that both transports share: the choice of the handler,
      the unknown tool, and the \<open>catch\<close> of what a handler throws.\<close>
  "dispatch w toolName tokens params =
     (case (if toolName = ''deployRepo'' then handleDeployRepo w tokens params
            else if toolName = ''getDeploymentStatus''
              then handleGetDeploymentStatus w (vercelToken tokens) params
            else ([], Inr (respondError (''Unknown tool: '' @ toolName) 404
                            ''Available tools: deployRepo, getDeploymentStatus''))) of
        (t, Inl m) \<Rightarrow> (t, respondError m 500 ''Tool execution failed'')
      | (t, Inr r) \<Rightarrow> (t, r))"

definition extractBearerToken :: "Request \<Rightarrow> string option" where
  \<comment> \<open>\<open>None\<close> is \<open>null\<close>.\<close>
  "extractBearerToken req =
     (case req_authorization req of
        Some authHeader \<Rightarrow>
          if authHeader \<noteq> [] \<and> startsWith authHeader ''Bearer '' then Some (drop 7 authHeader)
          else None
      | None \<Rightarrow> None)"

definition handleTool_bearer :: "Upstream \<Rightarrow> Request \<Rightarrow> event list \<times> HttpResponse" where
  \<comment> \<open>\<open>handleTool\<close> of the combined-token transport.\<close>
  \<open>handleTool_bearer w req =
     (case extractBearerToken req of
        None \<Rightarrow>
          ([], respondError
                 ''Deployment tools require authentication. Please provide Bearer token in format "github_token:vercel_token"''
                 401 ''Missing Authorization header with Bearer token'')
      | Some token \<Rightarrow>
          if token = [] then
            ([], respondError
                   ''Deployment tools require authentication. Please provide Bearer token in format "github_token:vercel_token"''
                   401 ''Missing Authorization header with Bearer token'')
          else
            (case parseTokens token of
               Inl m \<Rightarrow> ([], respondError m 400 ''Token format should be "github_token:vercel_token"'')
             | Inr tokens \<Rightarrow> dispatch w (req_toolName req) tokens (req_body req)))\<close>

definition extractTokensFromHeaders :: "Request \<Rightarrow> TokenPair option" where
  "extractTokensFromHeaders req =
     (case (req_x_github req, req_x_vercel req) of
        (Some g, Some v) \<Rightarrow>
          if g = [] \<or> v = [] then None
          else if trim g = [] \<or> trim v = [] then None
          else Some \<lparr>githubToken = trim g, vercelToken = trim v\<rparr>
      | _ \<Rightarrow> None)"

definition handleTool_headers :: "Upstream \<Rightarrow> Request \<Rightarrow> event list \<times> HttpResponse" where
  \<comment> \<open>\<open>handleTool\<close> of the two-header transport.\<close>
  "handleTool_headers w req =
     (case extractTokensFromHeaders req of
        None \<Rightarrow>
          ([], respondError
                 ''Deployment tools require authentication. Please provide x-github and x-vercel headers''
                 401 ''Missing x-github and/or x-vercel headers'')
      | Some tokens \<Rightarrow> dispatch w (req_toolName req) tokens (req_body req))"

section \<open>The spec's wording of name sanitization\<close>

definition isLowerAlnum :: "char \<Rightarrow> bool" where
  \<comment> \<open>The character class \<open>[a-z0-9]\<close>.\<close>
  "isLowerAlnum c \<longleftrightarrow>
     (let n = (of_char c :: nat) in (97 \<le> n \<and> n \<le> 122) \<or> (48 \<le> n \<and> n \<le> 57))"

definition trimHyphens :: "string \<Rightarrow> string" where
  \<comment> \<open>"Trim leading/trailing \<open>-\<close>": every hyphen at either end goes.\<close>
  "trimHyphens s = rev (dropWhile isHyphen (rev (dropWhile isHyphen s)))"

definition sanitize_spec :: "string \<Rightarrow> string" where
  \<comment> \<open>The spec's sentence: lowercase; any character outside \<open>[a-z0-9-]\<close> becomes \<open>-\<close>;
      collapse repeated \<open>-\<close>; trim leading/trailing \<open>-\<close>.\<close>
  "sanitize_spec n = trimHyphens (collapseHyphens (replaceInvalid (toLowerCase n)))"

definition stripHead :: "string \<Rightarrow> string" where
  \<comment> \<open>The first half of \<^const>\<open>stripEdgeHyphen\<close>.\<close>
  "stripHead s = (case s of [] \<Rightarrow> [] | c # cs \<Rightarrow> if c = CHR ''-'' then cs else s)"

definition stripLast :: "string \<Rightarrow> string" where
  \<comment> \<open>The second half of \<^const>\<open>stripEdgeHyphen\<close>.\<close>
  "stripLast s = (if s \<noteq> [] \<and> last s = CHR ''-'' then butlast s else s)"

section \<open>The spec's status table\<close>

definition statusMessage_spec :: "string \<Rightarrow> string" where
  \<comment> \<open>The spec's fixed six-entry table, and its message for every other state.\<close>
  "statusMessage_spec state =
     (if state = ''BUILDING'' then ''Deployment is currently building''
      else if state = ''ERROR'' then ''Deployment failed with errors''
      else if state = ''INITIALIZING'' then ''Deployment is initializing''
      else if state = ''QUEUED'' then ''Deployment is queued and waiting to start''
      else if state = ''READY'' then ''Deployment is live and ready''
      else if state = ''CANCELED'' then ''Deployment was canceled''
      else ''Unknown deployment status'')"

section \<open>Example inputs\<close>

definition exampleDeployment :: "string \<Rightarrow> VercelDeployment" where
  \<comment> \<open>A deployment as the platform reports it, in the given state.\<close>
  "exampleDeployment state =
     \<lparr>d_id = ''dpl_1'', d_url = ''acme-site.vercel.app'', d_name = ''acme-site'',
      d_state = state, d_createdAt = 1700000000000, d_projectId = ''prj_1'',
      d_inspectorUrl = Some ''https://vercel.com/acme/acme-site/dpl_1''\<rparr>"

definition exampleProject :: VercelProject where
  "exampleProject =
     \<lparr>p_id = ''prj_1'', p_name = ''acme-site'', p_accountId = ''team_1'',
      p_createdAt = 1699999999000, p_updatedAt = 1699999999000\<rparr>"

definition exampleRepoData :: RepoData where
  "exampleRepoData =
     \<lparr>data_owner_login = ''Acme'', data_name = ''Site'', data_default_branch = ''main'',
      data_private = False, data_full_name = ''Acme/Site'', data_id = 42\<rparr>"

definition upstreamOk :: "string \<Rightarrow> Upstream" where
  \<comment> \<open>Every upstream request succeeds; the project does not exist yet; deployments are
      in the given state.\<close>
  "upstreamOk state =
     \<lparr>reposGet = (\<lambda>token own rep. Inr exampleRepoData),
      fetchGetProject = (\<lambda>token name. NotOk 404 ''Not Found'' None),
      fetchPostProject = (\<lambda>token projectData. Ok exampleProject),
      fetchPostDeployment = (\<lambda>token deploymentData. Ok (exampleDeployment state)),
      fetchGetDeployment = (\<lambda>token deploymentId. Ok (exampleDeployment state))\<rparr>"

definition upstreamRepoNotFound :: Upstream where
  \<comment> \<open>The source-control API answers 404.\<close>
  "upstreamRepoNotFound =
     (upstreamOk ''QUEUED'')
       \<lparr>reposGet := (\<lambda>token own rep. Inl \<lparr>e_status = Some 404, e_message = ''Not Found''\<rparr>)\<rparr>"

definition exampleRequest :: "string \<Rightarrow> js \<Rightarrow> Request" where
  \<comment> \<open>A request that carries both credentials, in both transports.\<close>
  "exampleRequest tool params =
     \<lparr>req_toolName = tool, req_authorization = Some ''Bearer gh:vc'',
      req_x_github = Some ''gh'', req_x_vercel = Some ''vc'', req_body = params\<rparr>"

definition exampleTokens :: TokenPair where
  "exampleTokens = \<lparr>githubToken = ''gh'', vercelToken = ''vc''\<rparr>"

definition exampleParams :: DeployRepoParams where
  "exampleParams =
     \<lparr>dp_repoUrl = ''https://github.com/acme/site'', dp_projectName = None,
      dp_framework = Some ''static''\<rparr>"

definition upstreamProjectFails :: Upstream where
  \<comment> \<open>The platform refuses to create the project.\<close>
  "upstreamProjectFails =
     (upstreamOk ''QUEUED'')
       \<lparr>fetchPostProject := (\<lambda>token projectData. NotOk 403 ''Forbidden'' (Some ''Not authorized''))\<rparr>"

definition upstreamDeploymentFails :: Upstream where
  \<comment> \<open>The request for a deployment never gets an answer.\<close>
  "upstreamDeploymentFails =
     (upstreamOk ''QUEUED'')
       \<lparr>fetchPostDeployment := (\<lambda>token deploymentData. Threw ''socket hang up'')\<rparr>"

definition upstreamStatusFails :: Upstream where
  \<comment> \<open>The platform does not know the deployment.\<close>
  "upstreamStatusFails =
     (upstreamOk ''QUEUED'')
       \<lparr>fetchGetDeployment := (\<lambda>token deploymentId. NotOk 404 ''Not Found'' None)\<rparr>"

definition credentialMissing :: "string option \<Rightarrow> bool" where
  \<comment> \<open>A credential string that is absent, empty or white space only.\<close>
  "credentialMissing c = (case c of None \<Rightarrow> True | Some s \<Rightarrow> list_all isWhiteSpace s)"

definition bearerAuthError :: HttpResponse where
  \<comment> \<open>The 401 answer of the combined-token transport.\<close>
  \<open>bearerAuthError =
     respondError
       ''Deployment tools require authentication. Please provide Bearer token in format "github_token:vercel_token"''
       401 ''Missing Authorization header with Bearer token''\<close>

definition headersAuthError :: HttpResponse where
  \<comment> \<open>The 401 answer of the two-header transport.\<close>
  "headersAuthError =
     respondError
       ''Deployment tools require authentication. Please provide x-github and x-vercel headers''
       401 ''Missing x-github and/or x-vercel headers''"

definition exampleBody :: js where
  "exampleBody = Obj [(''repoUrl'', Str ''https://github.com/acme/site'')]"

section \<open>Splitting and trimming\<close>

lemma split_str_ne: "split_str sep s \<noteq> []"
  by (induction s) (auto split: list.splits)

lemma length_split_str: "length (split_str sep s) = Suc (count_list s sep)"
  by (induction s) (auto split: list.splits simp: split_str_ne)

lemma split_str_none: "sep \<notin> set s \<Longrightarrow> split_str sep s = [s]"
  by (induction s) auto

lemma split_str_app: "sep \<notin> set a \<Longrightarrow> split_str sep (a @ sep # b) = a # split_str sep b"
  by (induction a) auto

lemma split_str_two:
  "sep \<notin> set a \<Longrightarrow> sep \<notin> set b \<Longrightarrow> split_str sep (a @ sep # b) = [a, b]"
  by (simp add: split_str_app split_str_none)

lemma all_dropWhile: "(\<forall>x\<in>set (dropWhile P s). P x) \<longleftrightarrow> (\<forall>x\<in>set s. P x)"
  by (induction s) auto

lemma trim_empty_iff: "trim s = [] \<longleftrightarrow> list_all isWhiteSpace s"
  by (simp add: trim_def dropWhile_eq_Nil_conv all_dropWhile list_all_iff)

section \<open>Credential parsing\<close>

text \<open>
  C5: \<open>parseTokens\<close> maps \<open>gh:vc\<close> to the pair of \<open>gh\<close> and \<open>vc\<close>, and \<open> gh : vc \<close> to
  the same pair after trimming; it throws the format error for an input with no colon or
  with more than one (\<open>gh\<close>, \<open>gh:mid:vc\<close>, and every string whose number of colons is
  not one); it throws the both-required error when either side of the single colon is
  empty or white space only (\<open>:vc\<close>, \<open>gh:\<close>, \<open>:\<close>); otherwise it returns the two sides
  trimmed.
\<close>

theorem parseTokens_cases:
  "parseTokens ''gh:vc'' = Inr \<lparr>githubToken = ''gh'', vercelToken = ''vc''\<rparr>
   \<and> parseTokens '' gh : vc '' = Inr \<lparr>githubToken = ''gh'', vercelToken = ''vc''\<rparr>
   \<and> parseTokens ''gh'' = Inl formatError
   \<and> parseTokens ''gh:mid:vc'' = Inl formatError
   \<and> parseTokens '':vc'' = Inl bothRequiredError
   \<and> parseTokens ''gh:'' = Inl bothRequiredError
   \<and> parseTokens '':'' = Inl bothRequiredError
   \<and> (count_list s CHR '':'' \<noteq> 1 \<longrightarrow> parseTokens s = Inl formatError)
   \<and> (CHR '':'' \<notin> set a \<and> CHR '':'' \<notin> set b
        \<and> (list_all isWhiteSpace a \<or> list_all isWhiteSpace b)
        \<longrightarrow> parseTokens (a @ '':'' @ b) = Inl bothRequiredError)
   \<and> (CHR '':'' \<notin> set a \<and> CHR '':'' \<notin> set b
        \<and> \<not> list_all isWhiteSpace a \<and> \<not> list_all isWhiteSpace b
        \<longrightarrow> parseTokens (a @ '':'' @ b) = Inr \<lparr>githubToken = trim a, vercelToken = trim b\<rparr>)"
proof -
  have e1: "parseTokens ''gh:vc'' = Inr \<lparr>githubToken = ''gh'', vercelToken = ''vc''\<rparr>"
    by code_simp
  have e2: "parseTokens '' gh : vc '' = Inr \<lparr>githubToken = ''gh'', vercelToken = ''vc''\<rparr>"
    by code_simp
  have e3: "parseTokens ''gh'' = Inl formatError" by code_simp
  have e4: "parseTokens ''gh:mid:vc'' = Inl formatError" by code_simp
  have e5: "parseTokens '':vc'' = Inl bothRequiredError" by code_simp
  have e6: "parseTokens ''gh:'' = Inl bothRequiredError" by code_simp
  have e7: "parseTokens '':'' = Inl bothRequiredError" by code_simp
  have g1: "count_list s CHR '':'' \<noteq> 1 \<longrightarrow> parseTokens s = Inl formatError"
    by (simp add: parseTokens_def length_split_str)
  have g2: "CHR '':'' \<notin> set a \<and> CHR '':'' \<notin> set b
        \<and> (list_all isWhiteSpace a \<or> list_all isWhiteSpace b)
        \<longrightarrow> parseTokens (a @ '':'' @ b) = Inl bothRequiredError"
    by (auto simp: parseTokens_def split_str_two trim_empty_iff)
  have g3: "CHR '':'' \<notin> set a \<and> CHR '':'' \<notin> set b
        \<and> \<not> list_all isWhiteSpace a \<and> \<not> list_all isWhiteSpace b
        \<longrightarrow> parseTokens (a @ '':'' @ b) = Inr \<lparr>githubToken = trim a, vercelToken = trim b\<rparr>"
    by (auto simp: parseTokens_def split_str_two trim_empty_iff)
  from e1 e2 e3 e4 e5 e6 e7 g1 g2 g3 show ?thesis by blast
qed

theorem parseTokens_cases_witness:
  "count_list ''gh:mid:vc'' CHR '':'' \<noteq> 1 \<and> parseTokens ''gh:mid:vc'' = Inl formatError
   \<and> CHR '':'' \<notin> set '' '' \<and> CHR '':'' \<notin> set ''vc'' \<and> list_all isWhiteSpace '' ''
   \<and> parseTokens ('' '' @ '':'' @ ''vc'') = Inl bothRequiredError
   \<and> CHR '':'' \<notin> set ''gh '' \<and> CHR '':'' \<notin> set '' vc''
   \<and> \<not> list_all isWhiteSpace ''gh '' \<and> \<not> list_all isWhiteSpace '' vc''
   \<and> parseTokens (''gh '' @ '':'' @ '' vc'')
       = Inr \<lparr>githubToken = trim ''gh '', vercelToken = trim '' vc''\<rparr>
   \<and> trim ''gh '' = ''gh'' \<and> trim '' vc'' = ''vc''"
  using parseTokens_cases [of "''gh:mid:vc''" "'' ''" "''vc''"]
    parseTokens_cases [of "''gh:mid:vc''" "''gh ''" "'' vc''"]
  by (simp add: isWhiteSpace_def trim_def)

section \<open>Name sanitization\<close>

lemma includes_str_sublist: "includes_str s sub \<longleftrightarrow> sublist sub s"
  by (induction s) (auto simp: sublist_Cons_right)

lemma isNameChar_iff: "isNameChar c \<longleftrightarrow> isLowerAlnum c \<or> c = CHR ''-''"
  by (auto simp: isNameChar_def isLowerAlnum_def Let_def)

lemma hyphen_not_alnum: "\<not> isLowerAlnum CHR ''-''"
  by (simp add: isLowerAlnum_def)

lemma replaceInvalid_all: "list_all isNameChar (replaceInvalid s)"
  by (induction s) (auto simp: replaceInvalid_def isNameChar_iff)

lemma filter_replaceInvalid:
  "filter (\<lambda>c. c \<noteq> CHR ''-'') (replaceInvalid s) = filter isLowerAlnum s"
  by (induction s) (auto simp: replaceInvalid_def isNameChar_iff hyphen_not_alnum)

lemma replaceInvalid_hyphens:
  "\<not> list_ex isLowerAlnum s \<Longrightarrow> \<forall>c\<in>set (replaceInvalid s). c = CHR ''-''"
  by (auto simp: replaceInvalid_def isNameChar_iff list_ex_iff)

lemma filter_dropWhile_hyphen:
  "filter (\<lambda>c. c \<noteq> CHR ''-'') (dropWhile isHyphen xs) = filter (\<lambda>c. c \<noteq> CHR ''-'') xs"
  by (induction xs) (auto simp: isHyphen_def)

lemma set_collapseHyphens: "set (collapseHyphens s) \<subseteq> set s"
proof (induction s rule: collapseHyphens.induct)
  case 1
  then show ?case by simp
next
  case (2 c cs)
  then show ?case
    using set_dropWhileD [of _ isHyphen cs] by (auto simp: isHyphen_def)
qed

lemma filter_collapseHyphens:
  "filter (\<lambda>c. c \<noteq> CHR ''-'') (collapseHyphens s) = filter (\<lambda>c. c \<noteq> CHR ''-'') s"
  by (induction s rule: collapseHyphens.induct) (auto simp: filter_dropWhile_hyphen isHyphen_def)

lemma collapseHyphens_hd:
  "s \<noteq> [] \<Longrightarrow> collapseHyphens s \<noteq> [] \<and> hd (collapseHyphens s) = hd s"
  by (cases s) (auto simp: isHyphen_def)

lemma collapseHyphens_no_run: "\<not> sublist ''--'' (collapseHyphens s)"
proof (induction s rule: collapseHyphens.induct)
  case 1
  then show ?case by simp
next
  case (2 c cs)
  show ?case
  proof (cases "isHyphen c")
    case True
    let ?d = "dropWhile isHyphen cs"
    have ih: "\<not> sublist ''--'' (collapseHyphens ?d)" using 2(1) True by simp
    have "\<not> prefix ''--'' (CHR ''-'' # collapseHyphens ?d)"
    proof (cases "?d = []")
      case True
      show ?thesis unfolding True by simp
    next
      case False
      then have "\<not> isHyphen (hd ?d)" by (rule hd_dropWhile)
      moreover have "collapseHyphens ?d \<noteq> [] \<and> hd (collapseHyphens ?d) = hd ?d"
        using False by (rule collapseHyphens_hd)
      ultimately show ?thesis
        by (cases "collapseHyphens ?d") (auto simp: isHyphen_def)
    qed
    with ih True show ?thesis by (simp add: sublist_Cons_right)
  next
    case False
    then show ?thesis using 2(2) by (auto simp: sublist_Cons_right isHyphen_def)
  qed
qed

lemma collapseHyphens_hyphens:
  assumes "s \<noteq> []" and "\<forall>c\<in>set s. c = CHR ''-''"
  shows "collapseHyphens s = ''-''"
proof -
  from assms(1) obtain c cs where s: "s = c # cs" by (cases s) auto
  have c: "isHyphen c" using assms(2) s by (simp add: isHyphen_def)
  have d: "dropWhile isHyphen cs = []" using assms(2) s by (simp add: isHyphen_def)
  show ?thesis unfolding s by (simp add: c d)
qed

lemma stripEdge_alt: "stripEdgeHyphen s = stripLast (stripHead s)"
  by (simp add: stripEdgeHyphen_def stripLast_def stripHead_def)

lemma dropWhile_stripHead: "\<not> sublist ''--'' s \<Longrightarrow> dropWhile isHyphen s = stripHead s"
  by (cases s; cases "tl s") (auto simp: stripHead_def isHyphen_def sublist_Cons_right)

lemma stripLast_rev: "stripLast s = rev (stripHead (rev s))"
  by (cases s rule: rev_cases) (auto simp: stripLast_def stripHead_def)

lemma sublist_stripHead: "sublist (stripHead s) s"
  by (cases s) (auto simp: stripHead_def sublist_Cons_right)

lemma no_run_stripHead: "\<not> sublist ''--'' s \<Longrightarrow> \<not> sublist ''--'' (stripHead s)"
  using sublist_stripHead sublist_order.order_trans by blast

lemma no_run_rev: "sublist ''--'' (rev s) \<longleftrightarrow> sublist ''--'' s"
  using sublist_rev [of "''--''" s] by simp

lemma trimHyphens_strip: "\<not> sublist ''--'' s \<Longrightarrow> trimHyphens s = stripEdgeHyphen s"
  by (simp add: trimHyphens_def stripEdge_alt stripLast_rev dropWhile_stripHead
      no_run_stripHead no_run_rev)

lemma trimHyphens_edges:
  "trimHyphens s \<noteq> [] \<Longrightarrow> hd (trimHyphens s) \<noteq> CHR ''-'' \<and> last (trimHyphens s) \<noteq> CHR ''-''"
proof -
  assume ne: "trimHyphens s \<noteq> []"
  let ?t = "dropWhile isHyphen (rev (dropWhile isHyphen s))"
  have t: "?t \<noteq> []" using ne by (simp add: trimHyphens_def)
  then have h: "\<not> isHyphen (hd ?t)" by (rule hd_dropWhile)
  have l1: "last (trimHyphens s) = hd ?t" using t by (simp add: trimHyphens_def last_rev)
  have d: "dropWhile isHyphen s \<noteq> []" using t by (cases "dropWhile isHyphen s") auto
  then have h2: "\<not> isHyphen (hd (dropWhile isHyphen s))" by (rule hd_dropWhile)
  have "hd (trimHyphens s) = last ?t" using t by (simp add: trimHyphens_def hd_rev)
  also have "last ?t = last (rev (dropWhile isHyphen s))"
    using t by (metis last_appendR takeWhile_dropWhile_id)
  also have "\<dots> = hd (dropWhile isHyphen s)" using d by (simp add: last_rev)
  finally show ?thesis using h h2 l1 by (simp add: isHyphen_def)
qed

lemma sublist_trimHyphens: "sublist (trimHyphens s) s"
proof -
  have "sublist (rev (dropWhile isHyphen (rev (dropWhile isHyphen s)))) (rev (rev (dropWhile isHyphen s)))"
    unfolding sublist_rev by (rule sublist_dropWhile)
  then have "sublist (trimHyphens s) (dropWhile isHyphen s)" by (simp add: trimHyphens_def)
  then show ?thesis using sublist_dropWhile sublist_order.order_trans by blast
qed

lemma filter_trimHyphens:
  "filter (\<lambda>c. c \<noteq> CHR ''-'') (trimHyphens s) = filter (\<lambda>c. c \<noteq> CHR ''-'') s"
  by (simp add: trimHyphens_def rev_filter [symmetric] filter_dropWhile_hyphen)

lemma sanitize_eq:
  "stripEdgeHyphen (collapseHyphens (replaceInvalid (toLowerCase n))) = sanitize_spec n"
  by (simp add: sanitize_spec_def trimHyphens_strip collapseHyphens_no_run)

lemma sanitize_spec_chars: "list_all isNameChar (sanitize_spec n)"
proof -
  have "set (sanitize_spec n) \<subseteq> set (collapseHyphens (replaceInvalid (toLowerCase n)))"
    unfolding sanitize_spec_def using sublist_trimHyphens by (rule set_mono_sublist)
  also have "\<dots> \<subseteq> set (replaceInvalid (toLowerCase n))" by (rule set_collapseHyphens)
  finally show ?thesis using replaceInvalid_all [of "toLowerCase n"]
    by (auto simp: list_all_iff)
qed

lemma sanitize_spec_no_run: "\<not> includes_str (sanitize_spec n) ''--''"
  unfolding includes_str_sublist sanitize_spec_def
  using sublist_trimHyphens collapseHyphens_no_run sublist_order.order_trans by blast

lemma sanitize_spec_filter:
  "filter (\<lambda>c. c \<noteq> CHR ''-'') (sanitize_spec n) = filter isLowerAlnum (toLowerCase n)"
  by (simp add: sanitize_spec_def filter_trimHyphens filter_collapseHyphens filter_replaceInvalid)

text \<open>
  C6, as amended: for every non-empty caller-supplied project name, name resolution
  lowercases it, replaces each character outside \<open>[a-z0-9-]\<close> with a hyphen, collapses
  runs of hyphens to one hyphen and trims the hyphens at both ends, as the spec words it
  (\<^const>\<open>sanitize_spec\<close>): the result holds only characters of \<open>[a-z0-9-]\<close>, no two
  hyphens in a row, no hyphen at either end, and the lower-case letters and digits of the
  lowercased name in their order. \<open>My Project!\<close> becomes \<open>my-project\<close> and \<open>--a--b--\<close>
  becomes \<open>a-b\<close>. When no name is supplied, or the supplied name is the empty string, the
  resolved name is owner, hyphen, repo, lowercased (\<open>Acme\<close> and \<open>Site\<close> give
  \<open>acme-site\<close>).
\<close>

theorem generateProjectName_sanitizes:
  "(n \<noteq> [] \<longrightarrow>
      generateProjectName r (Some n) = sanitize_spec n
      \<and> list_all isNameChar (generateProjectName r (Some n))
      \<and> \<not> includes_str (generateProjectName r (Some n)) ''--''
      \<and> (generateProjectName r (Some n) = []
          \<or> hd (generateProjectName r (Some n)) \<noteq> CHR ''-''
            \<and> last (generateProjectName r (Some n)) \<noteq> CHR ''-'')
      \<and> filter (\<lambda>c. c \<noteq> CHR ''-'') (generateProjectName r (Some n))
          = filter isLowerAlnum (toLowerCase n))
   \<and> generateProjectName r None = toLowerCase (owner r @ ''-'' @ repo r)
   \<and> generateProjectName r (Some []) = toLowerCase (owner r @ ''-'' @ repo r)
   \<and> generateProjectName r (Some ''My Project!'') = ''my-project''
   \<and> generateProjectName r (Some ''--a--b--'') = ''a-b''
   \<and> generateProjectName \<lparr>owner = ''Acme'', repo = ''Site''\<rparr> None = ''acme-site''"
proof -
  have g: "generateProjectName r (Some n) = sanitize_spec n" if "n \<noteq> []"
    using that by (simp add: generateProjectName_def sanitize_eq)
  have e1: "generateProjectName r (Some ''My Project!'') = ''my-project''"
    unfolding generateProjectName_def by code_simp
  have e2: "generateProjectName r (Some ''--a--b--'') = ''a-b''"
    unfolding generateProjectName_def by code_simp
  have e3: "generateProjectName \<lparr>owner = ''Acme'', repo = ''Site''\<rparr> None = ''acme-site''"
    by code_simp
  have e4: "generateProjectName r None = toLowerCase (owner r @ ''-'' @ repo r)"
    by (simp add: generateProjectName_def)
  have e5: "generateProjectName r (Some []) = toLowerCase (owner r @ ''-'' @ repo r)"
    by (simp add: generateProjectName_def)
  show ?thesis
    using g sanitize_spec_chars [of n] sanitize_spec_no_run [of n] sanitize_spec_filter [of n]
      trimHyphens_edges [of "collapseHyphens (replaceInvalid (toLowerCase n))"] e1 e2 e3 e4 e5
    by (auto simp: sanitize_spec_def)
qed

theorem generateProjectName_sanitizes_witness:
  "''My Project!'' \<noteq> []
   \<and> generateProjectName \<lparr>owner = ''Acme'', repo = ''Site''\<rparr> (Some ''My Project!'')
       = sanitize_spec ''My Project!''
   \<and> sanitize_spec ''My Project!'' = ''my-project''
   \<and> \<not> includes_str (generateProjectName \<lparr>owner = ''Acme'', repo = ''Site''\<rparr> (Some ''My Project!'')) ''--''"
proof -
  have "sanitize_spec ''My Project!'' = ''my-project''" by code_simp
  then show ?thesis
    using generateProjectName_sanitizes [of "''My Project!''" "\<lparr>owner = ''Acme'', repo = ''Site''\<rparr>"]
    by simp
qed

text \<open>
  The claim as first stated, "for every caller-supplied project name", fails at the empty
  name: it is not sanitized (to the empty string) but replaced by the synthesized name.
\<close>

theorem generateProjectName_empty_name_counterexample:
  "generateProjectName \<lparr>owner = ''Acme'', repo = ''Site''\<rparr> (Some []) = ''acme-site''
   \<and> sanitize_spec [] = []
   \<and> generateProjectName \<lparr>owner = ''Acme'', repo = ''Site''\<rparr> (Some []) \<noteq> sanitize_spec []"
  by code_simp

text \<open>
  C10: name resolution does not guarantee a non-empty result for a supplied name. For
  every non-empty custom name with no character of \<open>[a-z0-9]\<close> after lowercasing (such
  as \<open>!!!\<close>) the project name is the empty string; a supplied empty custom name is
  treated as absent, and the synthesized owner-repo name is used.
\<close>

theorem generateProjectName_can_be_empty:
  "(n \<noteq> [] \<and> \<not> list_ex isLowerAlnum (toLowerCase n) \<longrightarrow> generateProjectName r (Some n) = [])
   \<and> generateProjectName r (Some ''!!!'') = []
   \<and> generateProjectName r (Some []) = toLowerCase (owner r @ ''-'' @ repo r)
   \<and> generateProjectName r (Some []) = generateProjectName r None"
proof -
  have "generateProjectName r (Some n) = []"
    if n: "n \<noteq> []" and a: "\<not> list_ex isLowerAlnum (toLowerCase n)"
  proof -
    have "replaceInvalid (toLowerCase n) \<noteq> []"
      using n by (simp add: replaceInvalid_def toLowerCase_def)
    then have "collapseHyphens (replaceInvalid (toLowerCase n)) = ''-''"
      using replaceInvalid_hyphens [OF a] by (rule collapseHyphens_hyphens)
    then show ?thesis using n by (simp add: generateProjectName_def stripEdgeHyphen_def)
  qed
  moreover have "generateProjectName r (Some ''!!!'') = []"
    unfolding generateProjectName_def by code_simp
  ultimately show ?thesis by (simp add: generateProjectName_def)
qed

theorem generateProjectName_can_be_empty_witness:
  "''!!!'' \<noteq> [] \<and> \<not> list_ex isLowerAlnum (toLowerCase ''!!!'')
   \<and> generateProjectName \<lparr>owner = ''Acme'', repo = ''Site''\<rparr> (Some ''!!!'') = []
   \<and> generateProjectName \<lparr>owner = ''Acme'', repo = ''Site''\<rparr> (Some []) = ''acme-site''"
proof -
  have a: "\<not> list_ex isLowerAlnum (toLowerCase ''!!!'')" by code_simp
  have b: "toLowerCase (''Acme'' @ ''-'' @ ''Site'') = ''acme-site''" by code_simp
  show ?thesis
    using a b generateProjectName_can_be_empty [of "''!!!''" "\<lparr>owner = ''Acme'', repo = ''Site''\<rparr>"]
    by simp
qed

section \<open>The status summary\<close>

lemma getProp_statusMessages:
  "getProp statusMessages k =
     (if k = ''BUILDING'' \<or> k = ''ERROR'' \<or> k = ''INITIALIZING'' \<or> k = ''QUEUED''
         \<or> k = ''READY'' \<or> k = ''CANCELED''
      then Inr (Str (statusMessage_spec k))
      else if k \<in> set objectPrototypeKeys then Inr (Builtin k) else Inr Undefined)"
  by (simp add: statusMessages_def statusMessage_spec_def)

lemma recognized_not_inherited:
  "k \<in> set objectPrototypeKeys \<Longrightarrow>
     \<not> (k = ''BUILDING'' \<or> k = ''ERROR'' \<or> k = ''INITIALIZING'' \<or> k = ''QUEUED''
         \<or> k = ''READY'' \<or> k = ''CANCELED'')"
  by (auto simp: objectPrototypeKeys_def)

lemma statusMessage_spec_nonempty: "statusMessage_spec k \<noteq> []"
  by (simp add: statusMessage_spec_def)

lemma statusMessage_spec_unknown:
  "k \<notin> set [''BUILDING'', ''ERROR'', ''INITIALIZING'', ''QUEUED'', ''READY'', ''CANCELED'']
   \<Longrightarrow> statusMessage_spec k = ''Unknown deployment status''"
  by (simp add: statusMessage_spec_def)

text \<open>
  C2: for every deployment state the platform returns, the summary carries the raw state
  unchanged as its status, \<open>isLive\<close> is true exactly for \<open>READY\<close> and \<open>hasError\<close> exactly
  for \<open>ERROR\<close>. The message is the one of the spec's table (\<^const>\<open>statusMessage_spec\<close>:
  the six entries, and \<open>Unknown deployment status\<close> for every other state) for every state
  that is not the name of a member the lookup object inherits from \<open>Object.prototype\<close>.
  For such a name (\<open>constructor\<close>, \<open>toString\<close>, ...) the lookup finds the inherited member,
  which is truthy, and the message is that member, not \<open>Unknown deployment status\<close>.
\<close>

theorem statusSummary_message:
  "s_status (statusSummary d) = d_state d
   \<and> s_isLive (statusSummary d) = (d_state d = ''READY'')
   \<and> s_hasError (statusSummary d) = (d_state d = ''ERROR'')
   \<and> (d_state d \<notin> set objectPrototypeKeys \<longrightarrow>
        s_message (statusSummary d) = Str (statusMessage_spec (d_state d)))
   \<and> (d_state d \<in> set objectPrototypeKeys \<longrightarrow>
        s_message (statusSummary d) = Builtin (d_state d)
        \<and> statusMessage_spec (d_state d) = ''Unknown deployment status'')"
proof -
  have a: "s_message (statusSummary d) = Str (statusMessage_spec (d_state d))"
    if "d_state d \<notin> set objectPrototypeKeys"
    using that
    by (simp add: statusSummary_def getProp_statusMessages statusMessage_spec_nonempty)
       (simp add: statusMessage_spec_def)
  have b: "s_message (statusSummary d) = Builtin (d_state d)"
    if "d_state d \<in> set objectPrototypeKeys"
    using that recognized_not_inherited [OF that]
    by (simp add: statusSummary_def getProp_statusMessages)
  have c: "statusMessage_spec (d_state d) = ''Unknown deployment status''"
    if "d_state d \<in> set objectPrototypeKeys"
    using recognized_not_inherited [OF that] by (simp add: statusMessage_spec_def)
  show ?thesis using a b c by (simp add: statusSummary_def)
qed

theorem statusSummary_message_witness:
  "''constructor'' \<in> set objectPrototypeKeys
   \<and> s_message (statusSummary (exampleDeployment ''constructor'')) = Builtin ''constructor''
   \<and> statusMessage_spec ''constructor'' = ''Unknown deployment status''
   \<and> ''PAUSED'' \<notin> set objectPrototypeKeys
   \<and> s_message (statusSummary (exampleDeployment ''PAUSED'')) = Str ''Unknown deployment status''
   \<and> s_status (statusSummary (exampleDeployment ''PAUSED'')) = ''PAUSED''
   \<and> s_message (statusSummary (exampleDeployment ''READY'')) = Str ''Deployment is live and ready''"
  using statusSummary_message [of "exampleDeployment ''constructor''"]
    statusSummary_message [of "exampleDeployment ''PAUSED''"]
    statusSummary_message [of "exampleDeployment ''READY''"]
  by (simp add: exampleDeployment_def objectPrototypeKeys_def statusMessage_spec_def)

text \<open>
  C8: for every deployment state, also an unrecognized one, the summary's \<open>isLive\<close> and
  \<open>hasError\<close> are never both true: in the summary built from a deployment, in whatever the
  status flow returns, and in whatever success envelope the status handler sends.
\<close>

theorem status_flags_exclusive:
  "\<not> (s_isLive (statusSummary d) \<and> s_hasError (statusSummary d))
   \<and> (snd (getDeploymentStatus w token deploymentId) = Inr summary \<longrightarrow>
        \<not> (s_isLive summary \<and> s_hasError summary))
   \<and> (snd (handleGetDeploymentStatus w token params)
         = Inr \<lparr>statusCode = code, sent = BaseSuccessResponseDto (DeploymentStatus out) kind\<rparr> \<longrightarrow>
        \<not> (st_isLive out \<and> st_hasError out))"
proof -
  have a: "\<not> (s_isLive (statusSummary d) \<and> s_hasError (statusSummary d))" for d
    by (simp add: statusSummary_def)
  have b: "\<not> (s_isLive summary \<and> s_hasError summary)"
    if "snd (getDeploymentStatus w token i) = Inr summary" for i summary
    using that a
    by (auto simp: getDeploymentStatus_def split: prod.splits sum.splits)
  have c: "\<not> (st_isLive out \<and> st_hasError out)"
    if "snd (handleGetDeploymentStatus w token params)
         = Inr \<lparr>statusCode = code, sent = BaseSuccessResponseDto (DeploymentStatus out) kind\<rparr>"
    using that b
    by (auto simp: handleGetDeploymentStatus_def respondError_def
        split: prod.splits sum.splits if_splits) (metis snd_conv)+
  show ?thesis using a b c by blast
qed


theorem status_flags_exclusive_witness:
  "snd (getDeploymentStatus (upstreamOk ''READY'') ''vc'' (Str ''dpl_1''))
     = Inr (statusSummary (exampleDeployment ''READY''))
   \<and> s_isLive (statusSummary (exampleDeployment ''READY''))
   \<and> \<not> s_hasError (statusSummary (exampleDeployment ''READY''))
   \<and> snd (getDeploymentStatus (upstreamOk ''ERROR'') ''vc'' (Str ''dpl_1''))
     = Inr (statusSummary (exampleDeployment ''ERROR''))
   \<and> s_hasError (statusSummary (exampleDeployment ''ERROR''))
   \<and> \<not> s_isLive (statusSummary (exampleDeployment ''ERROR''))"
proof -
  have a: "snd (getDeploymentStatus (upstreamOk st) ''vc'' (Str ''dpl_1''))
     = Inr (statusSummary (exampleDeployment st))" for st
    by (simp add: getDeploymentStatus_def vercelGetDeploymentStatus_def upstreamOk_def)
  have b: "s_isLive (statusSummary (exampleDeployment ''READY''))"
    by (simp add: statusSummary_def exampleDeployment_def)
  have c: "s_hasError (statusSummary (exampleDeployment ''ERROR''))"
    by (simp add: statusSummary_def exampleDeployment_def)
  show ?thesis
    using a b c
      status_flags_exclusive [of "exampleDeployment ''READY''" "upstreamOk ''READY''" "''vc''"
        "Str ''dpl_1''" "statusSummary (exampleDeployment ''READY'')"]
      status_flags_exclusive [of "exampleDeployment ''ERROR''" "upstreamOk ''ERROR''" "''vc''"
        "Str ''dpl_1''" "statusSummary (exampleDeployment ''ERROR'')"]
    by simp
qed

section \<open>Error propagation in the two flows\<close>

lemma validateRepository_trace:
  "fst (validateRepository w token url) = [] \<or>
   (\<exists>own rep. fst (validateRepository w token url) = [ReposGet token own rep])"
  by (simp add: validateRepository_def split: sum.splits)

lemma createProject_trace:
  "fst (createProject w token name info fw) = [GetProject token name] \<or>
   (\<exists>pd. fst (createProject w token name info fw) = [GetProject token name, PostProject token pd])"
  by (auto simp: createProject_def getProject_def Let_def
      split: prod.splits sum.splits option.splits FetchOutcome.splits)

lemma createDeployment_trace:
  "\<exists>dd. fst (createDeployment w token project info) = [PostDeployment token dd]"
  by (simp add: createDeployment_def Let_def)

lemma deployRepository_trace:
  "distinct (fst (deployRepository w tokens params))"
proof -
  obtain t1 r1 where v: "validateRepository w (githubToken tokens) (dp_repoUrl params) = (t1, r1)"
    by (cases "validateRepository w (githubToken tokens) (dp_repoUrl params)")
  have d1: "t1 = [] \<or> (\<exists>own rep. t1 = [ReposGet (githubToken tokens) own rep])"
    using validateRepository_trace [of w "githubToken tokens" "dp_repoUrl params"] v by simp
  show ?thesis
  proof (cases r1)
    case (Inl m)
    then show ?thesis using v d1 by (auto simp: deployRepository_def)
  next
    case (Inr info)
    let ?name = "generateProjectName info (dp_projectName params)"
    obtain t2 r2 where c: "createProject w (vercelToken tokens) ?name info
        (orStatic (dp_framework params)) = (t2, r2)"
      by (cases "createProject w (vercelToken tokens) ?name info (orStatic (dp_framework params))")
    have d2: "t2 = [GetProject (vercelToken tokens) ?name] \<or>
       (\<exists>pd. t2 = [GetProject (vercelToken tokens) ?name, PostProject (vercelToken tokens) pd])"
      using createProject_trace [of w "vercelToken tokens" ?name info "orStatic (dp_framework params)"] c
      by simp
    show ?thesis
    proof (cases r2)
      case (Inl m)
      then show ?thesis using v Inr c d1 d2 by (auto simp: deployRepository_def)
    next
      case r2: (Inr project)
      obtain t3 r3 where e: "createDeployment w (vercelToken tokens) project info = (t3, r3)"
        by (cases "createDeployment w (vercelToken tokens) project info")
      have d3: "\<exists>dd. t3 = [PostDeployment (vercelToken tokens) dd]"
        using createDeployment_trace [of w "vercelToken tokens" project info] e by simp
      show ?thesis using v Inr c r2 e d1 d2 d3
        by (cases r3) (auto simp: deployRepository_def)
    qed
  qed
qed

text \<open>
  C3: every error raised inside the deploy flow (by repository validation, by project
  provisioning or by the deployment trigger) is thrown again by \<open>deployRepository\<close> with
  \<open>Deployment failed: \<close> put before the unchanged message, and every error of the status
  fetch by \<open>getDeploymentStatus\<close> with \<open>Failed to get deployment status: \<close> before it.
  Nothing is suppressed: a failing step makes the flow fail, the steps after it are not
  run, and every error the flow throws is such a wrapped step error. Nothing is retried:
  the deploy flow sends no request twice, and the status flow sends exactly one.
\<close>

theorem orchestrator_rethrows:
  "(validateRepository w (githubToken tokens) (dp_repoUrl params) = (t1, Inl e) \<longrightarrow>
      deployRepository w tokens params
        = (DeployRepository tokens params # t1, Inl (''Deployment failed: '' @ e)))
   \<and> (validateRepository w (githubToken tokens) (dp_repoUrl params) = (t1, Inr info)
       \<and> createProject w (vercelToken tokens)
            (generateProjectName info (dp_projectName params)) info
            (orStatic (dp_framework params)) = (t2, Inl e) \<longrightarrow>
      deployRepository w tokens params
        = (DeployRepository tokens params # t1 @ t2, Inl (''Deployment failed: '' @ e)))
   \<and> (validateRepository w (githubToken tokens) (dp_repoUrl params) = (t1, Inr info)
       \<and> createProject w (vercelToken tokens)
            (generateProjectName info (dp_projectName params)) info
            (orStatic (dp_framework params)) = (t2, Inr project)
       \<and> createDeployment w (vercelToken tokens) project info = (t3, Inl e) \<longrightarrow>
      deployRepository w tokens params
        = (DeployRepository tokens params # t1 @ t2 @ t3, Inl (''Deployment failed: '' @ e)))
   \<and> (snd (deployRepository w tokens params) = Inl m \<longrightarrow>
        (\<exists>e'. m = ''Deployment failed: '' @ e'
          \<and> (snd (validateRepository w (githubToken tokens) (dp_repoUrl params)) = Inl e'
             \<or> (\<exists>info'. snd (validateRepository w (githubToken tokens) (dp_repoUrl params)) = Inr info'
                  \<and> (snd (createProject w (vercelToken tokens)
                         (generateProjectName info' (dp_projectName params)) info'
                         (orStatic (dp_framework params))) = Inl e'
                      \<or> (\<exists>project'. snd (createProject w (vercelToken tokens)
                             (generateProjectName info' (dp_projectName params)) info'
                             (orStatic (dp_framework params))) = Inr project'
                           \<and> snd (createDeployment w (vercelToken tokens) project' info') = Inl e'))))))
   \<and> distinct (fst (deployRepository w tokens params))
   \<and> (snd (vercelGetDeploymentStatus w token deploymentId) = Inl e \<longrightarrow>
        getDeploymentStatus w token deploymentId
          = ([GetDeploymentStatus token deploymentId, GetDeployment token deploymentId],
             Inl (''Failed to get deployment status: '' @ e)))
   \<and> (snd (getDeploymentStatus w token deploymentId) = Inl m \<longrightarrow>
        (\<exists>e'. m = ''Failed to get deployment status: '' @ e'
          \<and> snd (vercelGetDeploymentStatus w token deploymentId) = Inl e'))
   \<and> fst (getDeploymentStatus w token deploymentId)
       = [GetDeploymentStatus token deploymentId, GetDeployment token deploymentId]"
proof -
  have s1: "validateRepository w (githubToken tokens) (dp_repoUrl params) = (t1, Inl e) \<longrightarrow>
      deployRepository w tokens params
        = (DeployRepository tokens params # t1, Inl (''Deployment failed: '' @ e))"
    by (simp add: deployRepository_def)
  have s2: "validateRepository w (githubToken tokens) (dp_repoUrl params) = (t1, Inr info)
       \<and> createProject w (vercelToken tokens)
            (generateProjectName info (dp_projectName params)) info
            (orStatic (dp_framework params)) = (t2, Inl e) \<longrightarrow>
      deployRepository w tokens params
        = (DeployRepository tokens params # t1 @ t2, Inl (''Deployment failed: '' @ e))"
    by (simp add: deployRepository_def)
  have s3: "validateRepository w (githubToken tokens) (dp_repoUrl params) = (t1, Inr info)
       \<and> createProject w (vercelToken tokens)
            (generateProjectName info (dp_projectName params)) info
            (orStatic (dp_framework params)) = (t2, Inr project)
       \<and> createDeployment w (vercelToken tokens) project info = (t3, Inl e) \<longrightarrow>
      deployRepository w tokens params
        = (DeployRepository tokens params # t1 @ t2 @ t3, Inl (''Deployment failed: '' @ e))"
    by (simp add: deployRepository_def)
  have s4: "snd (deployRepository w tokens params) = Inl m \<longrightarrow>
        (\<exists>e'. m = ''Deployment failed: '' @ e'
          \<and> (snd (validateRepository w (githubToken tokens) (dp_repoUrl params)) = Inl e'
             \<or> (\<exists>info'. snd (validateRepository w (githubToken tokens) (dp_repoUrl params)) = Inr info'
                  \<and> (snd (createProject w (vercelToken tokens)
                         (generateProjectName info' (dp_projectName params)) info'
                         (orStatic (dp_framework params))) = Inl e'
                      \<or> (\<exists>project'. snd (createProject w (vercelToken tokens)
                             (generateProjectName info' (dp_projectName params)) info'
                             (orStatic (dp_framework params))) = Inr project'
                           \<and> snd (createDeployment w (vercelToken tokens) project' info') = Inl e')))))"
    by (auto simp: deployRepository_def split: prod.splits sum.splits)
  have s5: "snd (vercelGetDeploymentStatus w token deploymentId) = Inl e \<longrightarrow>
        getDeploymentStatus w token deploymentId
          = ([GetDeploymentStatus token deploymentId, GetDeployment token deploymentId],
             Inl (''Failed to get deployment status: '' @ e))"
    by (auto simp: getDeploymentStatus_def vercelGetDeploymentStatus_def
        split: prod.splits sum.splits)
  have s6: "snd (getDeploymentStatus w token deploymentId) = Inl m \<longrightarrow>
        (\<exists>e'. m = ''Failed to get deployment status: '' @ e'
          \<and> snd (vercelGetDeploymentStatus w token deploymentId) = Inl e')"
    by (auto simp: getDeploymentStatus_def split: prod.splits sum.splits)
  have s7: "fst (getDeploymentStatus w token deploymentId)
       = [GetDeploymentStatus token deploymentId, GetDeployment token deploymentId]"
    by (auto simp: getDeploymentStatus_def vercelGetDeploymentStatus_def split: prod.splits sum.splits)
  from s1 s2 s3 s4 s5 s6 s7 deployRepository_trace [of w tokens params]
  show ?thesis by blast
qed

theorem orchestrator_rethrows_witness:
  "validateRepository upstreamRepoNotFound (githubToken exampleTokens) (dp_repoUrl exampleParams)
     = ([ReposGet ''gh'' ''acme'' ''site''],
        Inl ''Repository not found or not accessible: https://github.com/acme/site'')
   \<and> deployRepository upstreamRepoNotFound exampleTokens exampleParams
     = (DeployRepository exampleTokens exampleParams # [ReposGet ''gh'' ''acme'' ''site''],
        Inl (''Deployment failed: ''
             @ ''Repository not found or not accessible: https://github.com/acme/site''))
   \<and> snd (vercelGetDeploymentStatus upstreamStatusFails ''vc'' (Str ''dpl_1''))
     = Inl ''Failed to get deployment status: Vercel API error: Not Found''
   \<and> getDeploymentStatus upstreamStatusFails ''vc'' (Str ''dpl_1'')
     = ([GetDeploymentStatus ''vc'' (Str ''dpl_1''), GetDeployment ''vc'' (Str ''dpl_1'')],
        Inl (''Failed to get deployment status: ''
             @ ''Failed to get deployment status: Vercel API error: Not Found''))"
proof -
  have a: "validateRepository upstreamRepoNotFound (githubToken exampleTokens)
      (dp_repoUrl exampleParams)
     = ([ReposGet ''gh'' ''acme'' ''site''],
        Inl ''Repository not found or not accessible: https://github.com/acme/site'')"
    by code_simp
  have b: "snd (vercelGetDeploymentStatus upstreamStatusFails ''vc'' (Str ''dpl_1''))
     = Inl ''Failed to get deployment status: Vercel API error: Not Found''"
    by code_simp
  have c: "deployRepository upstreamRepoNotFound exampleTokens exampleParams
     = (DeployRepository exampleTokens exampleParams # [ReposGet ''gh'' ''acme'' ''site''],
        Inl (''Deployment failed: ''
             @ ''Repository not found or not accessible: https://github.com/acme/site''))"
    using a
      orchestrator_rethrows [where w = upstreamRepoNotFound and tokens = exampleTokens
        and params = exampleParams and ?t1.0 = "[ReposGet ''gh'' ''acme'' ''site'']"
        and e = "''Repository not found or not accessible: https://github.com/acme/site''"]
    by blast
  have d: "getDeploymentStatus upstreamStatusFails ''vc'' (Str ''dpl_1'')
     = ([GetDeploymentStatus ''vc'' (Str ''dpl_1''), GetDeployment ''vc'' (Str ''dpl_1'')],
        Inl (''Failed to get deployment status: ''
             @ ''Failed to get deployment status: Vercel API error: Not Found''))"
    using b
      orchestrator_rethrows [where w = upstreamStatusFails and token = "''vc''"
        and deploymentId = "Str ''dpl_1''"
        and e = "''Failed to get deployment status: Vercel API error: Not Found''"]
    by blast
  from a b c d show ?thesis by blast
qed

section \<open>The request adapter's answers\<close>

lemma includes_str_append: "includes_str a sub \<Longrightarrow> includes_str (a @ b) sub"
  by (auto simp: includes_str_sublist sublist_append)

lemma handleTool_headers_dispatch:
  "extractTokensFromHeaders req = Some tokens \<Longrightarrow>
   handleTool_headers w req = dispatch w (req_toolName req) tokens (req_body req)"
  by (simp add: handleTool_headers_def)

lemma handleTool_bearer_dispatch:
  "extractBearerToken req = Some tok \<Longrightarrow> tok \<noteq> [] \<Longrightarrow> parseTokens tok = Inr tokens \<Longrightarrow>
   handleTool_bearer w req = dispatch w (req_toolName req) tokens (req_body req)"
  by (simp add: handleTool_bearer_def)

lemma handleTool_headers_401:
  "extractTokensFromHeaders req = None \<Longrightarrow> handleTool_headers w req = ([], headersAuthError)"
  by (simp add: handleTool_headers_def headersAuthError_def)

lemma handleTool_bearer_401:
  "extractBearerToken req = None \<or> extractBearerToken req = Some [] \<Longrightarrow>
   handleTool_bearer w req = ([], bearerAuthError)"
  by (auto simp: handleTool_bearer_def bearerAuthError_def)

lemma handleTool_bearer_400:
  "extractBearerToken req = Some tok \<Longrightarrow> tok \<noteq> [] \<Longrightarrow> parseTokens tok = Inl m \<Longrightarrow>
   handleTool_bearer w req = ([], respondError m 400 formatError)"
  by (simp add: handleTool_bearer_def formatError_def)

lemma dispatch_unknown:
  "toolName \<noteq> ''deployRepo'' \<Longrightarrow> toolName \<noteq> ''getDeploymentStatus'' \<Longrightarrow>
   dispatch w toolName tokens params
     = ([], respondError (''Unknown tool: '' @ toolName) 404
              ''Available tools: deployRepo, getDeploymentStatus'')"
  by (simp add: dispatch_def)

lemma dispatch_deploy_throws:
  "handleDeployRepo w tokens params = (t, Inl m) \<Longrightarrow>
   dispatch w ''deployRepo'' tokens params = (t, respondError m 500 ''Tool execution failed'')"
  by (simp add: dispatch_def)

lemma dispatch_status_throws:
  "handleGetDeploymentStatus w (vercelToken tokens) params = (t, Inl m) \<Longrightarrow>
   dispatch w ''getDeploymentStatus'' tokens params
     = (t, respondError m 500 ''Tool execution failed'')"
  by (simp add: dispatch_def)

lemma dispatch_deploy_sends:
  "handleDeployRepo w tokens params = (t, Inr r) \<Longrightarrow>
   dispatch w ''deployRepo'' tokens params = (t, r)"
  by (simp add: dispatch_def)

lemma dispatch_status_sends:
  "handleGetDeploymentStatus w (vercelToken tokens) params = (t, Inr r) \<Longrightarrow>
   dispatch w ''getDeploymentStatus'' tokens params = (t, r)"
  by (simp add: dispatch_def)

lemma handleDeployRepo_invalid:
  "validateDeployRepoParameters params = Inl m \<Longrightarrow> handleDeployRepo w tokens params = ([], Inl m)"
  by (simp add: handleDeployRepo_def)

lemma handleGetDeploymentStatus_missing:
  "getProp params ''deploymentId'' = Inr v \<Longrightarrow> \<not> truthy v \<Longrightarrow>
   handleGetDeploymentStatus w token params
     = ([], Inl ''Missing required parameter: deploymentId'')"
  by (simp add: handleGetDeploymentStatus_def)

lemma validate_repoUrl_missing:
  "getProp params ''repoUrl'' = Inr v \<Longrightarrow> \<not> truthy v \<Longrightarrow>
   validateDeployRepoParameters params = Inl ''Missing required parameter: repoUrl''"
  by (simp add: validateDeployRepoParameters_def)

lemma validate_repoUrl_not_string:
  "getProp params ''repoUrl'' = Inr v \<Longrightarrow> truthy v \<Longrightarrow> \<not> isString v \<Longrightarrow>
   validateDeployRepoParameters params
     = Inl (''Parameter '' @ [CHR 0x27] @ ''repoUrl'' @ [CHR 0x27] @ '' must be a string'')"
  by (simp add: validateDeployRepoParameters_def)

lemma validate_repoUrl_not_github:
  "getProp params ''repoUrl'' = Inr (Str u) \<Longrightarrow> u \<noteq> [] \<Longrightarrow> \<not> includes_str u ''github.com'' \<Longrightarrow>
   validateDeployRepoParameters params
     = Inl (''Parameter '' @ [CHR 0x27] @ ''repoUrl'' @ [CHR 0x27]
            @ '' must be a valid GitHub repository URL'')"
  by (simp add: validateDeployRepoParameters_def)

lemma handleDeployRepo_flow_error:
  "validateDeployRepoParameters params = Inr u \<Longrightarrow>
   deployRepository w tokens
     \<lparr>dp_repoUrl = asString (readProp params ''repoUrl''),
      dp_projectName = asOptionalString (readProp params ''projectName''),
      dp_framework = asOptionalString (orElse (readProp params ''framework'') (Str ''static''))\<rparr>
     = (t, Inl m) \<Longrightarrow>
   handleDeployRepo w tokens params = (t, Inr (respondError m 400 ''Deployment failed''))"
  by (simp add: handleDeployRepo_def)

lemma handleGetDeploymentStatus_flow_error:
  "getProp params ''deploymentId'' = Inr v \<Longrightarrow> truthy v \<Longrightarrow>
   getDeploymentStatus w token v = (t, Inl m) \<Longrightarrow>
   handleGetDeploymentStatus w token params
     = (t, Inr (respondError m 400 ''Failed to get deployment status''))"
  by (simp add: handleGetDeploymentStatus_def)

lemma handleDeployRepo_codes:
  "handleDeployRepo w tokens params = (t, Inr r) \<Longrightarrow> statusCode r \<in> {200, 400}"
  by (auto simp: handleDeployRepo_def respondError_def split: sum.splits prod.splits)

lemma handleGetDeploymentStatus_codes:
  "handleGetDeploymentStatus w token params = (t, Inr r) \<Longrightarrow> statusCode r \<in> {200, 400}"
  by (auto simp: handleGetDeploymentStatus_def respondError_def
      split: sum.splits prod.splits if_splits)

lemma dispatch_codes: "statusCode (snd (dispatch w toolName tokens params)) \<in> {200, 400, 404, 500}"
proof -
  consider (d) "toolName = ''deployRepo''" | (s) "toolName = ''getDeploymentStatus''"
    | (u) "toolName \<noteq> ''deployRepo''" "toolName \<noteq> ''getDeploymentStatus''" by blast
  then show ?thesis
  proof cases
    case d
    obtain t r where h: "handleDeployRepo w tokens params = (t, r)"
      by (cases "handleDeployRepo w tokens params")
    show ?thesis
    proof (cases r)
      case (Inl m)
      then show ?thesis using d h dispatch_deploy_throws [of w tokens params t m]
        by (simp add: respondError_def)
    next
      case (Inr x)
      then show ?thesis
        using d h dispatch_deploy_sends [of w tokens params t x] handleDeployRepo_codes [of w tokens params t x]
        by auto
    qed
  next
    case s
    obtain t r where h: "handleGetDeploymentStatus w (vercelToken tokens) params = (t, r)"
      by (cases "handleGetDeploymentStatus w (vercelToken tokens) params")
    show ?thesis
    proof (cases r)
      case (Inl m)
      then show ?thesis using s h dispatch_status_throws [of w tokens params t m]
        by (simp add: respondError_def)
    next
      case (Inr x)
      then show ?thesis
        using s h dispatch_status_sends [of w tokens params t x]
          handleGetDeploymentStatus_codes [of w "vercelToken tokens" params t x]
        by auto
    qed
  next
    case u
    then show ?thesis by (simp add: dispatch_unknown respondError_def)
  qed
qed

lemma handleTool_headers_codes:
  "statusCode (snd (handleTool_headers w req)) \<in> {200, 400, 401, 404, 500}"
proof (cases "extractTokensFromHeaders req")
  case None
  then show ?thesis by (simp add: handleTool_headers_401 headersAuthError_def respondError_def)
next
  case (Some tokens)
  then show ?thesis
    using dispatch_codes [of w "req_toolName req" tokens "req_body req"]
    by (auto simp: handleTool_headers_dispatch)
qed

lemma handleTool_bearer_codes:
  "statusCode (snd (handleTool_bearer w req)) \<in> {200, 400, 401, 404, 500}"
proof (cases "extractBearerToken req")
  case None
  then show ?thesis by (simp add: handleTool_bearer_401 bearerAuthError_def respondError_def)
next
  case (Some tok)
  show ?thesis
  proof (cases "tok = []")
    case True
    then show ?thesis using Some
      by (simp add: handleTool_bearer_401 bearerAuthError_def respondError_def)
  next
    case False
    show ?thesis
    proof (cases "parseTokens tok")
      case (Inl m)
      then show ?thesis using Some False
        by (simp add: handleTool_bearer_400 respondError_def)
    next
      case (Inr tokens)
      then show ?thesis using Some False
          dispatch_codes [of w "req_toolName req" tokens "req_body req"]
        by (auto simp: handleTool_bearer_dispatch)
    qed
  qed
qed

lemma parseTokens_format: "count_list s CHR '':'' \<noteq> 1 \<Longrightarrow> parseTokens s = Inl formatError"
  by (simp add: parseTokens_def length_split_str)

lemma parseTokens_both_required:
  "CHR '':'' \<notin> set a \<Longrightarrow> CHR '':'' \<notin> set b \<Longrightarrow> list_all isWhiteSpace a \<or> list_all isWhiteSpace b
   \<Longrightarrow> parseTokens (a @ '':'' @ b) = Inl bothRequiredError"
  by (auto simp: parseTokens_def split_str_two trim_empty_iff)

lemma extractTokensFromHeaders_None:
  "extractTokensFromHeaders req = None \<longleftrightarrow>
     credentialMissing (req_x_github req) \<or> credentialMissing (req_x_vercel req)"
  by (auto simp: extractTokensFromHeaders_def credentialMissing_def trim_empty_iff
      split: option.splits)

lemma extractBearerToken_Bearer:
  "req_authorization req = Some (''Bearer '' @ tok) \<Longrightarrow> extractBearerToken req = Some tok"
  by (simp add: extractBearerToken_def startsWith_def)

lemma validateRepository_404:
  assumes "parseGitHubUrl url = Inr r"
    and "reposGet w token (owner r) (repo r) = Inl error"
    and "e_status error = Some 404"
  shows "validateRepository w token url
     = ([ReposGet token (owner r) (repo r)],
        Inl (''Repository not found or not accessible: '' @ url))"
  using assms by (simp add: validateRepository_def validateRepositoryCatch_def)

lemma validated_repoUrl:
  assumes "validateDeployRepoParameters params = Inr un"
  shows "\<exists>u. getProp params ''repoUrl'' = Inr (Str u) \<and> u \<noteq> [] \<and> includes_str u ''github.com''"
proof -
  from assms obtain v where g: "getProp params ''repoUrl'' = Inr v"
    by (cases "getProp params ''repoUrl''") (auto simp: validateDeployRepoParameters_def)
  from assms g have "truthy v \<and> isString v"
    by (auto simp: validateDeployRepoParameters_def split: if_splits)
  then obtain u where v: "v = Str u" and "u \<noteq> []" by (cases v) auto
  moreover from assms g v have "includes_str u ''github.com''"
    by (auto simp: validateDeployRepoParameters_def split: if_splits)
  ultimately show ?thesis using g by blast
qed

lemma not_found_in_message:
  "includes_str (''Deployment failed: Repository not found or not accessible: '' @ url) ''not found''"
proof -
  have "includes_str ''Deployment failed: Repository not found or not accessible: '' ''not found''"
    by code_simp
  then show ?thesis by (rule includes_str_append)
qed

text \<open>
  C1, as amended: for every inbound tool invocation whose parameters fail validation
  (\<open>deployRepo\<close> with \<open>repoUrl\<close> missing, not a string or without \<open>github.com\<close>,
  \<open>getDeploymentStatus\<close> with \<open>deploymentId\<close> missing) the validation error is thrown
  before the handler's own \<open>try\<close> block, and the Request Adapter answers with an error
  envelope of numeric status 500 that carries the validation message. Status 400 is the
  answer to a malformed combined token and to every error the deploy flow or the status
  flow throws; missing authentication yields 401, an unknown tool name 404, and every
  exception a handler throws 500. No other status than 200, 400, 401, 404 and 500 is sent,
  and an error envelope's code is the status it is sent with.
\<close>

theorem adapter_status_codes:
  "(validateDeployRepoParameters params = Inl m \<longrightarrow>
      dispatch w ''deployRepo'' tokens params
        = ([], respondError m 500 ''Tool execution failed''))
   \<and> (getProp params ''repoUrl'' = Inr v \<and> \<not> truthy v \<longrightarrow>
      validateDeployRepoParameters params = Inl ''Missing required parameter: repoUrl'')
   \<and> (getProp params ''repoUrl'' = Inr v \<and> truthy v \<and> \<not> isString v \<longrightarrow>
      validateDeployRepoParameters params
        = Inl (''Parameter '' @ [CHR 0x27] @ ''repoUrl'' @ [CHR 0x27] @ '' must be a string''))
   \<and> (getProp params ''repoUrl'' = Inr (Str u) \<and> u \<noteq> [] \<and> \<not> includes_str u ''github.com'' \<longrightarrow>
      validateDeployRepoParameters params
        = Inl (''Parameter '' @ [CHR 0x27] @ ''repoUrl'' @ [CHR 0x27]
               @ '' must be a valid GitHub repository URL''))
   \<and> (getProp params ''deploymentId'' = Inr v \<and> \<not> truthy v \<longrightarrow>
      dispatch w ''getDeploymentStatus'' tokens params
        = ([], respondError ''Missing required parameter: deploymentId'' 500
                 ''Tool execution failed''))
   \<and> (handleDeployRepo w tokens params = (t, Inl m) \<longrightarrow>
      dispatch w ''deployRepo'' tokens params = (t, respondError m 500 ''Tool execution failed''))
   \<and> (handleGetDeploymentStatus w (vercelToken tokens) params = (t, Inl m) \<longrightarrow>
      dispatch w ''getDeploymentStatus'' tokens params
        = (t, respondError m 500 ''Tool execution failed''))
   \<and> (toolName \<noteq> ''deployRepo'' \<and> toolName \<noteq> ''getDeploymentStatus'' \<longrightarrow>
      dispatch w toolName tokens params
        = ([], respondError (''Unknown tool: '' @ toolName) 404
                 ''Available tools: deployRepo, getDeploymentStatus''))
   \<and> (extractTokensFromHeaders req = None \<longrightarrow> handleTool_headers w req = ([], headersAuthError))
   \<and> (extractBearerToken req = None \<or> extractBearerToken req = Some [] \<longrightarrow>
      handleTool_bearer w req = ([], bearerAuthError))
   \<and> statusCode headersAuthError = 401
   \<and> statusCode bearerAuthError = 401
   \<and> (extractBearerToken req = Some tok \<and> tok \<noteq> [] \<and> parseTokens tok = Inl m \<longrightarrow>
      handleTool_bearer w req = ([], respondError m 400 formatError))
   \<and> (extractTokensFromHeaders req = Some tokens \<longrightarrow>
      handleTool_headers w req = dispatch w (req_toolName req) tokens (req_body req))
   \<and> (extractBearerToken req = Some tok \<and> tok \<noteq> [] \<and> parseTokens tok = Inr tokens \<longrightarrow>
      handleTool_bearer w req = dispatch w (req_toolName req) tokens (req_body req))
   \<and> (validateDeployRepoParameters params = Inr un
       \<and> deployRepository w tokens
            \<lparr>dp_repoUrl = asString (readProp params ''repoUrl''),
             dp_projectName = asOptionalString (readProp params ''projectName''),
             dp_framework =
               asOptionalString (orElse (readProp params ''framework'') (Str ''static''))\<rparr>
           = (t, Inl m) \<longrightarrow>
      dispatch w ''deployRepo'' tokens params = (t, respondError m 400 ''Deployment failed''))
   \<and> (getProp params ''deploymentId'' = Inr v \<and> truthy v
       \<and> getDeploymentStatus w (vercelToken tokens) v = (t, Inl m) \<longrightarrow>
      dispatch w ''getDeploymentStatus'' tokens params
        = (t, respondError m 400 ''Failed to get deployment status''))
   \<and> statusCode (snd (handleTool_headers w req)) \<in> {200, 400, 401, 404, 500}
   \<and> statusCode (snd (handleTool_bearer w req)) \<in> {200, 400, 401, 404, 500}
   \<and> statusCode (respondError m code details) = code"
proof -
  have c1: "validateDeployRepoParameters params = Inl m \<longrightarrow>
      dispatch w ''deployRepo'' tokens params
        = ([], respondError m 500 ''Tool execution failed'')"
    by (simp add: handleDeployRepo_invalid dispatch_deploy_throws)
  have c2: "getProp params ''repoUrl'' = Inr v \<and> \<not> truthy v \<longrightarrow>
      validateDeployRepoParameters params = Inl ''Missing required parameter: repoUrl''"
    by (simp add: validate_repoUrl_missing)
  have c3: "getProp params ''repoUrl'' = Inr v \<and> truthy v \<and> \<not> isString v \<longrightarrow>
      validateDeployRepoParameters params
        = Inl (''Parameter '' @ [CHR 0x27] @ ''repoUrl'' @ [CHR 0x27] @ '' must be a string'')"
    using validate_repoUrl_not_string [of params v] by blast
  have c4: "getProp params ''repoUrl'' = Inr (Str u) \<and> u \<noteq> [] \<and> \<not> includes_str u ''github.com'' \<longrightarrow>
      validateDeployRepoParameters params
        = Inl (''Parameter '' @ [CHR 0x27] @ ''repoUrl'' @ [CHR 0x27]
               @ '' must be a valid GitHub repository URL'')"
    using validate_repoUrl_not_github [of params u] by blast
  have c5: "getProp params ''deploymentId'' = Inr v \<and> \<not> truthy v \<longrightarrow>
      dispatch w ''getDeploymentStatus'' tokens params
        = ([], respondError ''Missing required parameter: deploymentId'' 500
                 ''Tool execution failed'')"
    by (simp add: handleGetDeploymentStatus_missing dispatch_status_throws)
  have c6: "handleDeployRepo w tokens params = (t, Inl m) \<longrightarrow>
      dispatch w ''deployRepo'' tokens params = (t, respondError m 500 ''Tool execution failed'')"
    by (simp add: dispatch_deploy_throws)
  have c7: "handleGetDeploymentStatus w (vercelToken tokens) params = (t, Inl m) \<longrightarrow>
      dispatch w ''getDeploymentStatus'' tokens params
        = (t, respondError m 500 ''Tool execution failed'')"
    by (simp add: dispatch_status_throws)
  have c8: "toolName \<noteq> ''deployRepo'' \<and> toolName \<noteq> ''getDeploymentStatus'' \<longrightarrow>
      dispatch w toolName tokens params
        = ([], respondError (''Unknown tool: '' @ toolName) 404
                 ''Available tools: deployRepo, getDeploymentStatus'')"
    using dispatch_unknown [of toolName w tokens params] by blast
  have c9: "extractTokensFromHeaders req = None \<longrightarrow> handleTool_headers w req = ([], headersAuthError)"
    by (simp add: handleTool_headers_401)
  have c10: "extractBearerToken req = None \<or> extractBearerToken req = Some [] \<longrightarrow>
      handleTool_bearer w req = ([], bearerAuthError)"
    using handleTool_bearer_401 [of req w] by blast
  have c11: "statusCode headersAuthError = 401"
    by (simp add: headersAuthError_def respondError_def)
  have c12: "statusCode bearerAuthError = 401"
    by (simp add: bearerAuthError_def respondError_def)
  have c13: "extractBearerToken req = Some tok \<and> tok \<noteq> [] \<and> parseTokens tok = Inl m \<longrightarrow>
      handleTool_bearer w req = ([], respondError m 400 formatError)"
    using handleTool_bearer_400 [of req tok m w] by blast
  have c14: "extractTokensFromHeaders req = Some tokens \<longrightarrow>
      handleTool_headers w req = dispatch w (req_toolName req) tokens (req_body req)"
    by (simp add: handleTool_headers_dispatch)
  have c15: "extractBearerToken req = Some tok \<and> tok \<noteq> [] \<and> parseTokens tok = Inr tokens \<longrightarrow>
      handleTool_bearer w req = dispatch w (req_toolName req) tokens (req_body req)"
    using handleTool_bearer_dispatch [of req tok tokens w] by blast
  have c16: "validateDeployRepoParameters params = Inr un
       \<and> deployRepository w tokens
            \<lparr>dp_repoUrl = asString (readProp params ''repoUrl''),
             dp_projectName = asOptionalString (readProp params ''projectName''),
             dp_framework =
               asOptionalString (orElse (readProp params ''framework'') (Str ''static''))\<rparr>
           = (t, Inl m) \<longrightarrow>
      dispatch w ''deployRepo'' tokens params = (t, respondError m 400 ''Deployment failed'')"
    using handleDeployRepo_flow_error [of params un w tokens t m]
      dispatch_deploy_sends [of w tokens params t "respondError m 400 ''Deployment failed''"]
    by blast
  have c17: "getProp params ''deploymentId'' = Inr v \<and> truthy v
       \<and> getDeploymentStatus w (vercelToken tokens) v = (t, Inl m) \<longrightarrow>
      dispatch w ''getDeploymentStatus'' tokens params
        = (t, respondError m 400 ''Failed to get deployment status'')"
    using handleGetDeploymentStatus_flow_error [of params v w "vercelToken tokens" t m]
      dispatch_status_sends [of w tokens params t
        "respondError m 400 ''Failed to get deployment status''"]
    by blast
  have c18: "statusCode (snd (handleTool_headers w req)) \<in> {200, 400, 401, 404, 500}"
    by (rule handleTool_headers_codes)
  have c19: "statusCode (snd (handleTool_bearer w req)) \<in> {200, 400, 401, 404, 500}"
    by (rule handleTool_bearer_codes)
  have c20: "statusCode (respondError m code details) = code"
    by (simp add: respondError_def)
  show ?thesis
    by (intro conjI c1 c2 c3 c4 c5 c6 c7 c8 c9 c10 c11 c12 c13 c14 c15 c16 c17 c18 c19 c20)
qed

theorem adapter_status_codes_witness:
  "validateDeployRepoParameters (Obj []) = Inl ''Missing required parameter: repoUrl''
   \<and> dispatch (upstreamOk ''READY'') ''deployRepo'' exampleTokens (Obj [])
       = ([], respondError ''Missing required parameter: repoUrl'' 500 ''Tool execution failed'')
   \<and> extractTokensFromHeaders (exampleRequest ''deployRepo'' (Obj [])) = Some exampleTokens
   \<and> handleTool_headers (upstreamOk ''READY'') (exampleRequest ''deployRepo'' (Obj []))
       = ([], respondError ''Missing required parameter: repoUrl'' 500 ''Tool execution failed'')
   \<and> getProp (Obj []) ''deploymentId'' = Inr Undefined \<and> \<not> truthy Undefined
   \<and> dispatch (upstreamOk ''READY'') ''getDeploymentStatus'' exampleTokens (Obj [])
       = ([], respondError ''Missing required parameter: deploymentId'' 500
                ''Tool execution failed'')
   \<and> ''restart'' \<noteq> ''deployRepo'' \<and> ''restart'' \<noteq> ''getDeploymentStatus''
   \<and> dispatch (upstreamOk ''READY'') ''restart'' exampleTokens (Obj [])
       = ([], respondError (''Unknown tool: '' @ ''restart'') 404
                ''Available tools: deployRepo, getDeploymentStatus'')"
proof -
  let ?w = "upstreamOk ''READY''"
  let ?req = "exampleRequest ''deployRepo'' (Obj [])"
  have h1: "validateDeployRepoParameters (Obj []) = Inl ''Missing required parameter: repoUrl''"
    by code_simp
  have h2: "extractTokensFromHeaders ?req = Some exampleTokens"
    by code_simp
  have h3: "getProp (Obj []) ''deploymentId'' = Inr Undefined \<and> \<not> truthy Undefined"
    by code_simp
  have h4: "''restart'' \<noteq> ''deployRepo'' \<and> ''restart'' \<noteq> ''getDeploymentStatus''"
    by simp
  have h5: "req_toolName ?req = ''deployRepo''" "req_body ?req = Obj []"
    by (simp_all add: exampleRequest_def)
  note th = adapter_status_codes [where w = ?w and tokens = exampleTokens and params = "Obj []"
      and m = "''Missing required parameter: repoUrl''" and v = Undefined
      and toolName = "''restart''" and req = ?req]
  have a: "dispatch ?w ''deployRepo'' exampleTokens (Obj [])
       = ([], respondError ''Missing required parameter: repoUrl'' 500 ''Tool execution failed'')"
    by (rule th [THEN conjunct1, THEN mp, OF h1])
  have b: "handleTool_headers ?w ?req = dispatch ?w (req_toolName ?req) exampleTokens (req_body ?req)"
    by (rule th [THEN conjunct2, THEN conjunct2, THEN conjunct2, THEN conjunct2, THEN conjunct2, THEN conjunct2, THEN conjunct2, THEN conjunct2, THEN conjunct2, THEN conjunct2, THEN conjunct2, THEN conjunct2, THEN conjunct2, THEN conjunct1, THEN mp, OF h2])
  have c: "dispatch ?w ''getDeploymentStatus'' exampleTokens (Obj [])
       = ([], respondError ''Missing required parameter: deploymentId'' 500
                ''Tool execution failed'')"
    by (rule th [THEN conjunct2, THEN conjunct2, THEN conjunct2, THEN conjunct2, THEN conjunct1, THEN mp, OF h3])
  have d: "dispatch ?w ''restart'' exampleTokens (Obj [])
       = ([], respondError (''Unknown tool: '' @ ''restart'') 404
                ''Available tools: deployRepo, getDeploymentStatus'')"
    by (rule th [THEN conjunct2, THEN conjunct2, THEN conjunct2, THEN conjunct2, THEN conjunct2, THEN conjunct2, THEN conjunct2, THEN conjunct1, THEN mp, OF h4])
  have b': "handleTool_headers ?w ?req
       = ([], respondError ''Missing required parameter: repoUrl'' 500 ''Tool execution failed'')"
    unfolding b h5 by (rule a)
  show ?thesis
    by (intro conjI h1 a h2 b' h3 [THEN conjunct1] h3 [THEN conjunct2] c
        h4 [THEN conjunct1] h4 [THEN conjunct2] d)
qed

text \<open>
  The claim as first stated, status 400 for parameters that fail validation, fails for
  each of its examples: the answer is 500.
\<close>

theorem validation_failure_counterexample:
  "validateDeployRepoParameters (Obj []) = Inl ''Missing required parameter: repoUrl''
   \<and> statusCode (snd (handleTool_headers (upstreamOk ''READY'')
         (exampleRequest ''deployRepo'' (Obj [])))) = 500
   \<and> statusCode (snd (handleTool_bearer (upstreamOk ''READY'')
         (exampleRequest ''deployRepo'' (Obj [])))) = 500
   \<and> statusCode (snd (handleTool_headers (upstreamOk ''READY'')
         (exampleRequest ''getDeploymentStatus'' (Obj [])))) = 500
   \<and> statusCode (snd (handleTool_headers (upstreamOk ''READY'')
         (exampleRequest ''deployRepo'' (Obj [(''repoUrl'', Num 7)])))) = 500
   \<and> statusCode (snd (handleTool_headers (upstreamOk ''READY'')
         (exampleRequest ''deployRepo''
            (Obj [(''repoUrl'', Str ''https://gitlab.com/acme/site'')])))) = 500
   \<and> statusCode (snd (handleTool_headers (upstreamOk ''READY'')
         (exampleRequest ''deployRepo'' (Obj [])))) \<noteq> 400"
  by code_simp

text \<open>
  C4, as amended: under the two-header transport, every request in which either
  credential string is absent, empty or white space only is answered with status 401, and
  no flow of the Orchestrator is entered and no upstream request sent. Under the combined
  bearer-token transport the answer is 401, with nothing entered or sent, when the
  \<open>Authorization\<close> header is absent, does not start with \<open>Bearer \<close>, or carries nothing
  after it; a token that is present but has an empty or white-space-only side, or not
  exactly one colon, is answered with status 400 (the token format error), again with
  nothing entered or sent.
\<close>

theorem missing_credentials:
  "(credentialMissing (req_x_github req) \<or> credentialMissing (req_x_vercel req) \<longrightarrow>
      handleTool_headers w req = ([], headersAuthError))
   \<and> (req_authorization req = None \<longrightarrow> handleTool_bearer w req = ([], bearerAuthError))
   \<and> (req_authorization req = Some h \<and> \<not> startsWith h ''Bearer '' \<longrightarrow>
      handleTool_bearer w req = ([], bearerAuthError))
   \<and> (req_authorization req = Some ''Bearer '' \<longrightarrow>
      handleTool_bearer w req = ([], bearerAuthError))
   \<and> (req_authorization req = Some (''Bearer '' @ a @ '':'' @ b)
       \<and> CHR '':'' \<notin> set a \<and> CHR '':'' \<notin> set b
       \<and> (list_all isWhiteSpace a \<or> list_all isWhiteSpace b) \<longrightarrow>
      handleTool_bearer w req = ([], respondError bothRequiredError 400 formatError))
   \<and> (req_authorization req = Some (''Bearer '' @ tok) \<and> tok \<noteq> []
       \<and> count_list tok CHR '':'' \<noteq> 1 \<longrightarrow>
      handleTool_bearer w req = ([], respondError formatError 400 formatError))
   \<and> statusCode headersAuthError = 401
   \<and> statusCode bearerAuthError = 401
   \<and> statusCode (respondError m 400 details) = 400"
proof -
  have c1: "credentialMissing (req_x_github req) \<or> credentialMissing (req_x_vercel req) \<longrightarrow>
      handleTool_headers w req = ([], headersAuthError)"
    using extractTokensFromHeaders_None [of req] handleTool_headers_401 [of req w] by blast
  have c2: "req_authorization req = None \<longrightarrow> handleTool_bearer w req = ([], bearerAuthError)"
    using handleTool_bearer_401 [of req w] by (simp add: extractBearerToken_def)
  have c3: "req_authorization req = Some h \<and> \<not> startsWith h ''Bearer '' \<longrightarrow>
      handleTool_bearer w req = ([], bearerAuthError)"
    using handleTool_bearer_401 [of req w] by (auto simp: extractBearerToken_def)
  have c4: "req_authorization req = Some ''Bearer '' \<longrightarrow>
      handleTool_bearer w req = ([], bearerAuthError)"
    using handleTool_bearer_401 [of req w] by (auto simp: extractBearerToken_def startsWith_def)
  have c5: "req_authorization req = Some (''Bearer '' @ a @ '':'' @ b)
       \<and> CHR '':'' \<notin> set a \<and> CHR '':'' \<notin> set b
       \<and> (list_all isWhiteSpace a \<or> list_all isWhiteSpace b) \<longrightarrow>
      handleTool_bearer w req = ([], respondError bothRequiredError 400 formatError)"
    using extractBearerToken_Bearer [of req "a @ '':'' @ b"] parseTokens_both_required [of a b]
      handleTool_bearer_400 [of req "a @ '':'' @ b" bothRequiredError w]
    by auto
  have c6: "req_authorization req = Some (''Bearer '' @ tok) \<and> tok \<noteq> []
       \<and> count_list tok CHR '':'' \<noteq> 1 \<longrightarrow>
      handleTool_bearer w req = ([], respondError formatError 400 formatError)"
    using extractBearerToken_Bearer [of req tok] parseTokens_format [of tok]
      handleTool_bearer_400 [of req tok formatError w]
    by auto
  have c7: "statusCode headersAuthError = 401"
    by (simp add: headersAuthError_def respondError_def)
  have c8: "statusCode bearerAuthError = 401"
    by (simp add: bearerAuthError_def respondError_def)
  have c9: "statusCode (respondError m 400 details) = 400"
    by (simp add: respondError_def)
  show ?thesis
    by (intro conjI c1 c2 c3 c4 c5 c6 c7 c8 c9)
qed

theorem missing_credentials_witness:
  "credentialMissing (req_x_github ((exampleRequest ''deployRepo'' exampleBody)\<lparr>req_x_github := Some ''  ''\<rparr>))
   \<and> handleTool_headers (upstreamOk ''READY'')
        ((exampleRequest ''deployRepo'' exampleBody)\<lparr>req_x_github := Some ''  ''\<rparr>)
       = ([], headersAuthError)
   \<and> statusCode headersAuthError = 401
   \<and> CHR '':'' \<notin> set [] \<and> CHR '':'' \<notin> set ''vc'' \<and> list_all isWhiteSpace []
   \<and> handleTool_bearer (upstreamOk ''READY'')
        ((exampleRequest ''deployRepo'' exampleBody)
           \<lparr>req_authorization := Some (''Bearer '' @ [] @ '':'' @ ''vc'')\<rparr>)
       = ([], respondError bothRequiredError 400 formatError)
   \<and> handleTool_bearer (upstreamOk ''READY'')
        ((exampleRequest ''deployRepo'' exampleBody)\<lparr>req_authorization := None\<rparr>)
       = ([], bearerAuthError)"
proof -
  let ?w = "upstreamOk ''READY''"
  let ?r1 = "(exampleRequest ''deployRepo'' exampleBody)\<lparr>req_x_github := Some ''  ''\<rparr>"
  let ?r2 = "(exampleRequest ''deployRepo'' exampleBody)
           \<lparr>req_authorization := Some (''Bearer '' @ [] @ '':'' @ ''vc'')\<rparr>"
  let ?r3 = "(exampleRequest ''deployRepo'' exampleBody)\<lparr>req_authorization := None\<rparr>"
  have h1: "credentialMissing (req_x_github ?r1)" by code_simp
  have h1': "credentialMissing (req_x_github ?r1) \<or> credentialMissing (req_x_vercel ?r1)"
    using h1 by (rule disjI1)
  have h3: "CHR '':'' \<notin> set []" "CHR '':'' \<notin> set ''vc''" "list_all isWhiteSpace []"
    by simp_all
  have h2: "req_authorization ?r2 = Some (''Bearer '' @ [] @ '':'' @ ''vc'')
       \<and> CHR '':'' \<notin> set [] \<and> CHR '':'' \<notin> set ''vc''
       \<and> (list_all isWhiteSpace [] \<or> list_all isWhiteSpace ''vc'')"
    by simp
  have h4: "req_authorization ?r3 = None" by simp
  have a: "handleTool_headers ?w ?r1 = ([], headersAuthError)"
    by (rule missing_credentials [where req = ?r1 and w = ?w, THEN conjunct1, THEN mp, OF h1'])
  have b: "handleTool_bearer ?w ?r2 = ([], respondError bothRequiredError 400 formatError)"
    by (rule missing_credentials [where req = ?r2 and w = ?w and a = "[]" and b = "''vc''",
          THEN conjunct2, THEN conjunct2, THEN conjunct2, THEN conjunct2, THEN conjunct1, THEN mp, OF h2])
  have c: "handleTool_bearer ?w ?r3 = ([], bearerAuthError)"
    by (rule missing_credentials [where req = ?r3 and w = ?w, THEN conjunct2, THEN conjunct1, THEN mp, OF h4])
  have d: "statusCode headersAuthError = 401"
    by (rule missing_credentials [where req = ?r1 and w = ?w, THEN conjunct2, THEN conjunct2, THEN conjunct2, THEN conjunct2, THEN conjunct2, THEN conjunct2, THEN conjunct1])
  show ?thesis
    by (intro conjI h1 a d h3 b c)
qed

text \<open>
  The claim as first stated, 401 under both transports, fails for the bearer token
  \<open>:vc\<close>, whose first credential is empty: the answer is 400.
\<close>

theorem empty_bearer_credential_counterexample:
  "handleTool_bearer (upstreamOk ''READY'')
     ((exampleRequest ''deployRepo'' exampleBody)\<lparr>req_authorization := Some ''Bearer :vc''\<rparr>)
     = ([], respondError bothRequiredError 400 formatError)
   \<and> statusCode (snd (handleTool_bearer (upstreamOk ''READY'')
         ((exampleRequest ''deployRepo'' exampleBody)\<lparr>req_authorization := Some ''Bearer :vc''\<rparr>)))
       = 400
   \<and> statusCode (snd (handleTool_bearer (upstreamOk ''READY'')
         ((exampleRequest ''deployRepo'' exampleBody)\<lparr>req_authorization := Some ''Bearer gh:  ''\<rparr>)))
       = 400
   \<and> statusCode (snd (handleTool_bearer (upstreamOk ''READY'')
         ((exampleRequest ''deployRepo'' exampleBody)\<lparr>req_authorization := Some ''Bearer :vc''\<rparr>)))
       \<noteq> 401"
  by code_simp

text \<open>
  C9: when the source-control API answers 404 for the requested owner and repository
  during a deploy (the parameters are valid, the repository reference parses, and the
  lookup throws an error of status 404), the caller receives an error envelope with
  numeric status 400 whose message contains \<open>not found\<close>, under both transports.
\<close>

theorem repository_not_found_is_400:
  assumes "validateDeployRepoParameters params = Inr un"
    and "getProp params ''repoUrl'' = Inr (Str url)"
    and "parseGitHubUrl url = Inr r"
    and "reposGet w (githubToken tokens) (owner r) (repo r) = Inl error"
    and "e_status error = Some 404"
  shows "snd (dispatch w ''deployRepo'' tokens params)
       = respondError (''Deployment failed: Repository not found or not accessible: '' @ url)
           400 ''Deployment failed''
     \<and> includes_str (''Deployment failed: Repository not found or not accessible: '' @ url)
          ''not found''
     \<and> (extractTokensFromHeaders req = Some tokens \<and> req_toolName req = ''deployRepo''
          \<and> req_body req = params \<longrightarrow>
        snd (handleTool_headers w req)
          = respondError (''Deployment failed: Repository not found or not accessible: '' @ url)
              400 ''Deployment failed'')
     \<and> (extractBearerToken req = Some tok \<and> tok \<noteq> [] \<and> parseTokens tok = Inr tokens
          \<and> req_toolName req = ''deployRepo'' \<and> req_body req = params \<longrightarrow>
        snd (handleTool_bearer w req)
          = respondError (''Deployment failed: Repository not found or not accessible: '' @ url)
              400 ''Deployment failed'')"
proof -
  let ?m = "''Deployment failed: Repository not found or not accessible: '' @ url"
  let ?p = "\<lparr>dp_repoUrl = asString (readProp params ''repoUrl''),
      dp_projectName = asOptionalString (readProp params ''projectName''),
      dp_framework = asOptionalString (orElse (readProp params ''framework'') (Str ''static''))\<rparr>"
  have u: "dp_repoUrl ?p = url"
    using assms(2) by (simp add: readProp_def asString_def)
  have v: "validateRepository w (githubToken tokens) (dp_repoUrl ?p)
     = ([ReposGet (githubToken tokens) (owner r) (repo r)],
        Inl (''Repository not found or not accessible: '' @ url))"
    unfolding u using assms(3-5) by (rule validateRepository_404)
  have d: "deployRepository w tokens ?p
     = ([DeployRepository tokens ?p, ReposGet (githubToken tokens) (owner r) (repo r)], Inl ?m)"
    unfolding deployRepository_def v by simp
  have h: "handleDeployRepo w tokens params
     = ([DeployRepository tokens ?p, ReposGet (githubToken tokens) (owner r) (repo r)],
        Inr (respondError ?m 400 ''Deployment failed''))"
    using assms(1) d by (rule handleDeployRepo_flow_error)
  have c1: "snd (dispatch w ''deployRepo'' tokens params) = respondError ?m 400 ''Deployment failed''"
    using dispatch_deploy_sends [OF h] by simp
  have c3: "extractTokensFromHeaders req = Some tokens \<and> req_toolName req = ''deployRepo''
          \<and> req_body req = params \<longrightarrow>
        snd (handleTool_headers w req) = respondError ?m 400 ''Deployment failed''"
    using c1 by (auto simp: handleTool_headers_dispatch)
  have c4: "extractBearerToken req = Some tok \<and> tok \<noteq> [] \<and> parseTokens tok = Inr tokens
          \<and> req_toolName req = ''deployRepo'' \<and> req_body req = params \<longrightarrow>
        snd (handleTool_bearer w req) = respondError ?m 400 ''Deployment failed''"
    using c1 by (auto simp: handleTool_bearer_dispatch)
  show ?thesis by (intro conjI c1 not_found_in_message c3 c4)
qed

theorem repository_not_found_is_400_witness:
  "validateDeployRepoParameters exampleBody = Inr ()
   \<and> getProp exampleBody ''repoUrl'' = Inr (Str ''https://github.com/acme/site'')
   \<and> parseGitHubUrl ''https://github.com/acme/site'' = Inr \<lparr>owner = ''acme'', repo = ''site''\<rparr>
   \<and> e_status \<lparr>e_status = Some 404, e_message = ''Not Found''\<rparr> = Some 404
   \<and> snd (dispatch upstreamRepoNotFound ''deployRepo'' exampleTokens exampleBody)
       = respondError (''Deployment failed: Repository not found or not accessible: ''
                       @ ''https://github.com/acme/site'') 400 ''Deployment failed''
   \<and> includes_str (''Deployment failed: Repository not found or not accessible: ''
                    @ ''https://github.com/acme/site'') ''not found''"
proof -
  let ?r = "\<lparr>owner = ''acme'', repo = ''site''\<rparr>"
  let ?e = "\<lparr>e_status = Some 404, e_message = ''Not Found''\<rparr>"
  have h1: "validateDeployRepoParameters exampleBody = Inr ()" by code_simp
  have h2: "getProp exampleBody ''repoUrl'' = Inr (Str ''https://github.com/acme/site'')"
    by code_simp
  have h3: "parseGitHubUrl ''https://github.com/acme/site'' = Inr ?r" by code_simp
  have h4: "reposGet upstreamRepoNotFound (githubToken exampleTokens) (owner ?r) (repo ?r) = Inl ?e"
    by (simp add: upstreamRepoNotFound_def upstreamOk_def)
  have h5: "e_status ?e = Some 404" by simp
  note th = repository_not_found_is_400 [OF h1 h2 h3 h4 h5]
  show ?thesis
    by (intro conjI h1 h2 h3 h5 th [THEN conjunct1] th [THEN conjunct2, THEN conjunct1])
qed

end
